theory Spec2Isabelle
  imports Complex_Main "HOL-Library.Log_Nat"
begin

section \<open>JavaScript values, strings and exceptions\<close>

text \<open>
  The audit engine of \<^verbatim>\<open>server.js\<close> (class \<^verbatim>\<open>GDPRChecker\<close>) is embedded as HOL
  functions. Conventions:

  \<^item> A JavaScript string is a list of UTF-16 code units. A \<^typ>\<open>char\<close> stands for one code
    unit in the range 0..255 (the Latin-1 part of Unicode), which covers every pattern and
    keyword of the rule tables; texts with code units above 255 are outside the model.
    On this range \<^verbatim>\<open>toLowerCase\<close> maps A..Z and U+00C0..U+00DE (except U+00D7) to the
    letter 32 places later and keeps every other unit, so lengths are preserved.
  \<^item> A thrown exception is an \<^verbatim>\<open>Error\<close> object, represented by its message; a
    computation that may throw (or an \<^verbatim>\<open>async\<close> function that may reject) returns
    \<open>string + 'a\<close>, with \<open>Inl\<close> carrying the message.
  \<^item> A value whose JavaScript type the source does not fix is a \<open>jsval\<close>.
  \<^item> Every awaited operation of the browser, of the HTML query library and of the TLS
    client settles; what it settles to is read from an explicit description of the
    outside world (\<open>world\<close>, \<open>attempt_env\<close>).
  \<^item> Log output and wall-clock timestamps are not part of the model; the texts of the
    Slovak messages are written without diacritics.
\<close>

datatype jsval = JUndefined | JNull | JBool bool | JNum rat | JStr string

fun truthy :: "jsval \<Rightarrow> bool" where
  "truthy JUndefined = False"
| "truthy JNull = False"
| "truthy (JBool b) = b"
| "truthy (JNum x) = (x \<noteq> 0)"
| "truthy (JStr s) = (s \<noteq> [])"

definition lower_char :: "char \<Rightarrow> char" where
  "lower_char c =
     (let n = (of_char c :: nat) in
      if (65 \<le> n \<and> n \<le> 90) \<or> (192 \<le> n \<and> n \<le> 222 \<and> n \<noteq> 215)
      then char_of (n + 32) else c)"

definition toLowerCase :: "string \<Rightarrow> string" where
  "toLowerCase s = map lower_char s"

fun startsWith :: "string \<Rightarrow> string \<Rightarrow> bool" where
  "startsWith s [] = True"
| "startsWith [] (p # ps) = False"
| "startsWith (c # cs) (p # ps) = (c = p \<and> startsWith cs ps)"

text \<open>\<open>str_includes s p\<close> is \<^verbatim>\<open>s.includes(p)\<close>.\<close>

fun str_includes :: "string \<Rightarrow> string \<Rightarrow> bool" where
  "str_includes [] p = (p = [])"
| "str_includes (c # cs) p = (startsWith (c # cs) p \<or> str_includes cs p)"

definition is_space :: "char \<Rightarrow> bool" where
  "is_space c = ((of_char c :: nat) \<in> {9, 10, 11, 12, 13, 32, 160})"

definition trim :: "string \<Rightarrow> string" where
  "trim s = rev (dropWhile is_space (rev (dropWhile is_space s)))"

text \<open>\<open>replaceFirst s p r\<close> is \<^verbatim>\<open>s.replace(p, r)\<close> for a non-empty string pattern \<open>p\<close>.\<close>

fun replaceFirst :: "string \<Rightarrow> string \<Rightarrow> string \<Rightarrow> string" where
  "replaceFirst [] p r = []"
| "replaceFirst (c # cs) p r =
     (if startsWith (c # cs) p then r @ drop (length p) (c # cs)
      else c # replaceFirst cs p r)"

fun show_nat :: "nat \<Rightarrow> string" where
  "show_nat n =
     (if n < 10 then [char_of (48 + n)]
      else show_nat (n div 10) @ [char_of (48 + n mod 10)])"

text \<open>\<^verbatim>\<open>Math.round\<close>: the nearest integer, a tie going towards plus infinity.\<close>

definition Math_round :: "rat \<Rightarrow> int" where
  "Math_round x = \<lfloor>x + 1 / 2\<rfloor>"

section \<open>Rule tables\<close>

record gdpr_check =
  selectors :: "string list"
  link_patterns :: "string list"
  keyword_list :: "string list"

definition GDPR_CHECKS_cookieBanner :: gdpr_check where
  \<open>GDPR_CHECKS_cookieBanner =
     \<lparr> selectors =
         [''[id*="cookie"]'', ''[class*="cookie"]'', ''[id*="consent"]'',
          ''[class*="consent"]'', ''[data-consent]'', ''.cookie-notice'',
          ''.cookie-banner'', ''#cookie-policy'', ''.gdpr-banner'', ''[class*="gdpr"]''],
       link_patterns = [],
       keyword_list =
         [''cookie'', ''s'' @ [CHR 0xFA] @ ''hlas'', ''consent'', ''gdpr'',
          ''ochrana '' @ [CHR 0xFA] @ ''dajov'', ''privacy'', ''cookies policy''] \<rparr>\<close>

definition GDPR_CHECKS_privacyPolicy :: gdpr_check where
  "GDPR_CHECKS_privacyPolicy =
     \<lparr> selectors = [],
       link_patterns =
         [''privacy'', ''ochrana-udajov'', ''ochrana-osobnych-udajov'', ''zasady-ochrany'',
          ''gdpr'', ''privacy-policy'', ''osobne-udaje''],
       keyword_list =
         [''privacy policy'', ''ochrana '' @ [CHR 0xFA] @ ''dajov'',
          ''ochrana osobn'' @ [CHR 0xFD] @ ''ch '' @ [CHR 0xFA] @ ''dajov'',
          ''z'' @ [CHR 0xE1] @ ''sady ochrany'', ''gdpr''] \<rparr>"

definition GDPR_CHECKS_cookiePolicy :: gdpr_check where
  "GDPR_CHECKS_cookiePolicy =
     \<lparr> selectors = [],
       link_patterns =
         [''cookie'', ''cookies'', ''cookie-policy'', ''zasady-cookies'', ''cookies-policy''],
       keyword_list =
         [''cookie policy'', ''z'' @ [CHR 0xE1] @ ''sady cookies'', ''o cookies'',
          ''cookies information''] \<rparr>"

definition GDPR_CHECKS_contactInfo :: gdpr_check where
  \<open>GDPR_CHECKS_contactInfo =
     \<lparr> selectors =
         [''[href^="mailto:"]'', ''[class*="contact"]'', ''[id*="contact"]'',
          ''[class*="email"]'', ''[id*="email"]''],
       link_patterns = [],
       keyword_list = [''kontakt'', ''contact'', ''email'', ''@'', ''tel:'', ''phone''] \<rparr>\<close>

record tracking_service =
  patterns :: "string list"
  service_name :: string
  category :: string

text \<open>The entries of \<^verbatim>\<open>TRACKING_SERVICES\<close> in the order of \<^verbatim>\<open>Object.entries\<close>.\<close>

definition TRACKING_SERVICES :: "(string \<times> tracking_service) list" where
  "TRACKING_SERVICES =
     [(''google-analytics'',
       \<lparr> patterns = [''google-analytics.com'', ''googletagmanager.com'', ''gtag'', ''_ga'',
                      ''_gid'', ''_gat''],
         service_name = ''Google Analytics'', category = ''analytics'' \<rparr>),
      (''facebook-pixel'',
       \<lparr> patterns = [''facebook.com/tr'', ''connect.facebook.net'', ''fbq'', ''_fbp'', ''_fbc''],
         service_name = ''Facebook Pixel'', category = ''marketing'' \<rparr>),
      (''google-ads'',
       \<lparr> patterns = [''googleadservices.com'', ''googlesyndication.com'', ''_gcl_''],
         service_name = ''Google Ads'', category = ''advertising'' \<rparr>),
      (''hotjar'',
       \<lparr> patterns = [''hotjar.com'', ''_hjid'', ''_hjIncludedInSample''],
         service_name = ''Hotjar'', category = ''analytics'' \<rparr>),
      (''youtube'',
       \<lparr> patterns = [''youtube.com/embed'', ''ytimg.com'', ''VISITOR_INFO1_LIVE'', ''YSC''],
         service_name = ''YouTube Embedded'', category = ''media'' \<rparr>)]"

definition maxRetries :: nat where
  "maxRetries = 2"

section \<open>Data model\<close>

record cookie =
  name :: jsval
  domain :: string
  secure :: bool
  httpOnly :: bool
  sameSite :: "string option"

record request =
  request_url :: string
  request_type :: string

record tracking_hit =
  hit_service :: string
  hit_category :: string
  hit_url :: string
  hit_type :: string

record detected_service =
  detected_name :: string
  detected_category :: string
  detected :: bool

record cookie_detail =
  detail_name :: jsval
  detail_domain :: string
  detail_secure :: bool
  detail_httpOnly :: bool

datatype violation_details =
  CookieDetails "cookie_detail list"
| RequestDetails "tracking_hit list"

fun details_length :: "violation_details \<Rightarrow> nat" where
  "details_length (CookieDetails ds) = length ds"
| "details_length (RequestDetails hs) = length hs"

record violation =
  violation_type :: string
  severity :: string
  violation_message :: string
  violation_details :: violation_details

record banner_element =
  element_selector :: string
  element_text :: string
  visible :: bool

record policy_link =
  link_href :: string
  link_text :: string
  link_type :: string

record contact =
  contact_type :: string
  contact_value :: string
  contact_text :: string

record cookie_info =
  info_name :: jsval
  info_domain :: string
  info_secure :: bool
  info_httpOnly :: bool
  info_sameSite :: string

text \<open>
  The objects stored under \<^verbatim>\<open>results.checks\<close> have different shapes; \<open>check_result\<close>
  has one field for every property that some shape has, \<open>None\<close> (or \<open>JUndefined\<close>, or the
  empty list of an evidence array) when the object lacks the property.
\<close>

record check_result =
  found :: "bool option"
  score :: jsval
  error :: "string option"
  elements :: "banner_element list"
  links :: "policy_link list"
  contacts :: "contact list"
  violations :: "violation list option"
  totalCookies :: "nat option"
  trackingServices :: "detected_service list option"
  count :: "nat option"
  cookieList :: "cookie_info list"
  valid :: "bool option"
  details :: "string option"

definition no_properties :: check_result where
  "no_properties =
     \<lparr> found = None, score = JUndefined, error = None, elements = [], links = [],
       contacts = [], violations = None, totalCookies = None, trackingServices = None,
       count = None, cookieList = [], valid = None, details = None \<rparr>"

type_synonym checks = "string \<rightharpoonup> check_result"

record recommendation =
  priority :: string
  message :: string

section \<open>The outside world\<close>

text \<open>
  \<open>cheerio\<close> is the HTML query function \<^verbatim>\<open>$\<close> of a loaded document: a selector is
  answered by the matched elements in document order, or the query throws.
\<close>

record dom_element =
  node_text :: string
  node_href :: "string option"

type_synonym cheerio = "string \<Rightarrow> string + dom_element list"

text \<open>\<^verbatim>\<open>$(...).text()\<close>: the combined text of the matched elements.\<close>

definition text_of :: "dom_element list \<Rightarrow> string" where
  "text_of els = concat (map node_text els)"

record parsed_url =
  protocol :: string
  hostname :: string

text \<open>
  The peer certificate seen by the TLS client: none, or one whose \<^verbatim>\<open>valid_to\<close> parses
  to a time in milliseconds (\<open>None\<close> for an invalid date) and prints as a locale date.
\<close>

datatype certificate = NoCertificate | ValidTo "int option" string

datatype tls_outcome = TlsConnected certificate | TlsError string

datatype nav_result = NavThrows string | NavNull | NavResponse nat string

text \<open>What the browser, the page and the network do during one attempt of an audit.\<close>

record attempt_env =
  launch :: "string option"
  newPage :: "string option"
  configure :: "string option"
  goto :: nav_result
  captured_requests :: "request list"
  load_time :: nat
  page_content :: "string + cheerio"
  page_cookies_first :: "string + cookie list"
  page_cookies_second :: "string + cookie list"
  tls_connect :: tls_outcome
  now :: int

text \<open>
  \<open>parse_url\<close> is \<^verbatim>\<open>new URL(url)\<close>; \<open>attempts w k\<close> describes the attempt made with
  \<^verbatim>\<open>retryCount = k\<close>.
\<close>

record world =
  parse_url :: "string \<Rightarrow> string + parsed_url"
  attempts :: "nat \<Rightarrow> attempt_env"

text \<open>
  The state that outlives a call: whether \<^verbatim>\<open>this.browser\<close> is set, the pages that are
  open in the browser, and two traces, the arguments of the calls of \<^verbatim>\<open>this.delay\<close> and
  the hosts to which a TLS connection was opened (both oldest first).
\<close>

record state =
  browser :: bool
  open_pages :: "nat list"
  next_page :: nat
  delays :: "nat list"
  tls_connections :: "string list"

section \<open>Violation analysis: \<^verbatim>\<open>checkPreConsentViolations\<close>\<close>

definition essentialPatterns :: "string list" where
  "essentialPatterns =
     [''session'', ''csrf'', ''xsrf'', ''auth'', ''login'', ''security'', ''lang'', ''language'',
      ''timezone'', ''currency'', ''theme'', ''wordpress'', ''wp-'', ''phpsessid'']"

definition isEssential :: "string \<Rightarrow> bool" where
  "isEssential cookieName =
     list_ex (\<lambda>pattern. str_includes cookieName (toLowerCase pattern)) essentialPatterns"

text \<open>
  The callback of \<^verbatim>\<open>cookies.filter\<close>. \<^verbatim>\<open>(cookie.name || '').toLowerCase()\<close> throws a
  \<^verbatim>\<open>TypeError\<close> when the name is a truthy value that is not a string.
\<close>

definition isProblematic :: "cookie \<Rightarrow> string + bool" where
  "isProblematic c =
     (case (if truthy (name c) then name c else JStr []) of
        JStr s \<Rightarrow> Inr (\<not> isEssential (toLowerCase s))
      | _ \<Rightarrow> Inl ''toLowerCase is not a function'')"

fun problematicCookies :: "cookie list \<Rightarrow> string + cookie list" where
  "problematicCookies [] = Inr []"
| "problematicCookies (c # cs) =
     (case isProblematic c of
        Inl e \<Rightarrow> Inl e
      | Inr keep \<Rightarrow>
          (case problematicCookies cs of
             Inl e \<Rightarrow> Inl e
           | Inr rest \<Rightarrow> Inr (if keep then c # rest else rest)))"

definition matchesService :: "tracking_service \<Rightarrow> request \<Rightarrow> bool" where
  "matchesService service request =
     list_ex (\<lambda>pattern. str_includes (toLowerCase (request_url request)) (toLowerCase pattern))
       (patterns service)"

text \<open>
  One step of the inner loop over \<^verbatim>\<open>Object.entries(TRACKING_SERVICES)\<close>: the pair is
  \<^verbatim>\<open>trackingRequests\<close> and \<^verbatim>\<open>result.trackingServices\<close>.
\<close>

definition scanService ::
  "request \<Rightarrow> string \<times> tracking_service \<Rightarrow> tracking_hit list \<times> detected_service list
     \<Rightarrow> tracking_hit list \<times> detected_service list" where
  "scanService request entry acc =
     (let service = snd entry; hits = fst acc; services = snd acc in
      if matchesService service request
      then (hits @ [\<lparr> hit_service = service_name service, hit_category = category service,
                      hit_url = request_url request, hit_type = request_type request \<rparr>],
            if find (\<lambda>s. detected_name s = service_name service) services = None
            then services @ [\<lparr> detected_name = service_name service,
                                detected_category = category service, detected = True \<rparr>]
            else services)
      else acc)"

definition scanRequests :: "request list \<Rightarrow> tracking_hit list \<times> detected_service list" where
  "scanRequests networkRequests =
     fold (\<lambda>request acc. fold (scanService request) TRACKING_SERVICES acc) networkRequests ([], [])"

definition trackingRequests :: "request list \<Rightarrow> tracking_hit list" where
  "trackingRequests networkRequests = fst (scanRequests networkRequests)"

definition cookieDetail :: "cookie \<Rightarrow> cookie_detail" where
  "cookieDetail c =
     \<lparr> detail_name = name c, detail_domain = domain c, detail_secure = secure c,
       detail_httpOnly = httpOnly c \<rparr>"

definition addViolation :: "violation \<Rightarrow> check_result \<Rightarrow> check_result" where
  "addViolation v result =
     result\<lparr> found := Some True,
             violations := Some ((case violations result of Some vs \<Rightarrow> vs | None \<Rightarrow> []) @ [v]) \<rparr>"

text \<open>
  The parameters \<^verbatim>\<open>htmlContent\<close>, \<^verbatim>\<open>startTime\<close> and \<^verbatim>\<open>endTime\<close> are not read by the
  source and are left out. The only statement of the \<^verbatim>\<open>try\<close> block that can throw is the
  filter, which runs before \<^verbatim>\<open>result\<close> is changed.
\<close>

definition checkPreConsentViolations :: "cookie list \<Rightarrow> request list \<Rightarrow> string + check_result" where
  "checkPreConsentViolations cookies networkRequests =
     (let result = no_properties\<lparr> found := Some False, violations := Some [], score := JNum 100,
                                  totalCookies := Some (length cookies),
                                  trackingServices := Some [] \<rparr>
      in case problematicCookies cookies of
           Inl e \<Rightarrow> Inr (result\<lparr> score := JNum 50 \<rparr>)
         | Inr problematic \<Rightarrow>
             (let scanned = scanRequests networkRequests;
                  tracking = fst scanned;
                  result = result\<lparr> trackingServices := Some (snd scanned) \<rparr>;
                  result =
                    (if length problematic > 0
                     then addViolation
                            \<lparr> violation_type = ''pre-consent-cookies'', severity = ''HIGH'',
                              violation_message =
                                show_nat (length problematic) @ '' cookies nastavenych pred suhlasom'',
                              violation_details = CookieDetails (map cookieDetail problematic) \<rparr>
                            result
                     else result);
                  result =
                    (if length tracking > 0
                     then addViolation
                            \<lparr> violation_type = ''tracking-requests'', severity = ''HIGH'',
                              violation_message =
                                show_nat (length tracking) @ '' tracking poziadaviek pred suhlasom'',
                              violation_details = RequestDetails tracking \<rparr>
                            result
                     else result);
                  penalty = int (length problematic) * 15 + int (length tracking) * 10
              in Inr (if found result = Some True
                      then result\<lparr> score := JNum (of_int (max 0 (100 - penalty))) \<rparr>
                      else result)))"

section \<open>Content analysis\<close>

definition inspectElement :: "string \<Rightarrow> dom_element \<Rightarrow> check_result \<Rightarrow> check_result" where
  "inspectElement selector el result =
     (let txt = toLowerCase (node_text el) in
      if length txt > 10
      then result\<lparr> found := Some True,
                   elements := elements result @
                     [\<lparr> element_selector = selector, element_text = take 100 txt,
                        visible = True \<rparr>] \<rparr>
      else result)"

text \<open>One round of the loop over the selectors, with its own \<^verbatim>\<open>try\<close>/\<^verbatim>\<open>catch\<close>.\<close>

definition scanSelector :: "cheerio \<Rightarrow> string \<Rightarrow> check_result \<Rightarrow> check_result" where
  "scanSelector query selector result =
     (case query selector of
        Inl e \<Rightarrow> result
      | Inr els \<Rightarrow> if length els > 0 then fold (inspectElement selector) els result else result)"

definition checkCookieBanner :: "cheerio \<Rightarrow> string + check_result" where
  "checkCookieBanner query =
     (let result = no_properties\<lparr> found := Some False, elements := [], score := JNum 0 \<rparr>;
          result = fold (scanSelector query) (selectors GDPR_CHECKS_cookieBanner) result
      in case query ''body'' of
           Inl e \<Rightarrow> Inr (result\<lparr> score := JNum 0 \<rparr>)
         | Inr body \<Rightarrow>
             (let bodyText = toLowerCase (text_of body);
                  result =
                    (if list_ex (\<lambda>keyword. str_includes bodyText (toLowerCase keyword))
                          (keyword_list GDPR_CHECKS_cookieBanner)
                     then result\<lparr> found := Some True \<rparr> else result)
              in Inr (result\<lparr> score := JNum (if found result = Some True then 100 else 0) \<rparr>)))"

definition href_or_empty :: "dom_element \<Rightarrow> string" where
  "href_or_empty el = (case node_href el of Some h \<Rightarrow> h | None \<Rightarrow> [])"

text \<open>The loop over the link patterns of one anchor, left at the first pattern that matches.\<close>

definition anchorMatches :: "string list \<Rightarrow> dom_element \<Rightarrow> bool" where
  "anchorMatches link_list el =
     (let href = href_or_empty el; txt = toLowerCase (node_text el) in
      list_ex (\<lambda>link. str_includes (toLowerCase href) link \<or> str_includes txt link) link_list)"

definition inspectAnchor :: "string list \<Rightarrow> string \<Rightarrow> dom_element \<Rightarrow> check_result \<Rightarrow> check_result" where
  "inspectAnchor link_list ltype el result =
     (if anchorMatches link_list el
      then result\<lparr> found := Some True,
                   links := links result @
                     [\<lparr> link_href = href_or_empty el, link_text = trim (node_text el),
                        link_type = ltype \<rparr>] \<rparr>
      else result)"

definition checkPrivacyPolicy :: "cheerio \<Rightarrow> string + check_result" where
  "checkPrivacyPolicy query =
     (let result = no_properties\<lparr> found := Some False, links := [], score := JNum 0 \<rparr>
      in case query ''a'' of
           Inl e \<Rightarrow> Inr (result\<lparr> score := JNum 0 \<rparr>)
         | Inr anchors \<Rightarrow>
             (let result =
                    fold (inspectAnchor (link_patterns GDPR_CHECKS_privacyPolicy) ''privacy-policy'')
                      anchors result
              in Inr (result\<lparr> score := JNum (if found result = Some True then 100 else 0) \<rparr>)))"

definition checkCookiePolicy :: "cheerio \<Rightarrow> string + check_result" where
  "checkCookiePolicy query =
     (let result = no_properties\<lparr> found := Some False, links := [], score := JNum 0 \<rparr>
      in case query ''a'' of
           Inl e \<Rightarrow> Inr (result\<lparr> score := JNum 0 \<rparr>)
         | Inr anchors \<Rightarrow>
             (let result =
                    fold (inspectAnchor (link_patterns GDPR_CHECKS_cookiePolicy) ''cookie-policy'')
                      anchors result
              in Inr (result\<lparr> score := JNum (if found result = Some True then 80 else 0) \<rparr>)))"

text \<open>
  The callbacks of the two \<^verbatim>\<open>each\<close> loops of \<^verbatim>\<open>checkContactInfo\<close>. An element without
  \<^verbatim>\<open>href\<close> makes \<^verbatim>\<open>.replace\<close> throw after \<^verbatim>\<open>found\<close> has been set; the first component
  tells whether the loop threw.
\<close>

fun addContacts ::
  "string \<Rightarrow> string \<Rightarrow> dom_element list \<Rightarrow> check_result \<Rightarrow> bool \<times> check_result" where
  "addContacts ctype pre [] result = (False, result)"
| "addContacts ctype pre (el # els) result =
     (case node_href el of
        None \<Rightarrow> (True, result\<lparr> found := Some True \<rparr>)
      | Some h \<Rightarrow>
          addContacts ctype pre els
            (result\<lparr> found := Some True,
                     contacts := contacts result @
                       [\<lparr> contact_type = ctype, contact_value = replaceFirst h pre [],
                          contact_text = trim (node_text el) \<rparr>] \<rparr>))"

fun contactSelectors :: "cheerio \<Rightarrow> string list \<Rightarrow> check_result \<Rightarrow> bool \<times> check_result" where
  "contactSelectors query [] result = (False, result)"
| "contactSelectors query (selector # rest) result =
     (case query selector of
        Inl e \<Rightarrow> (True, result)
      | Inr els \<Rightarrow>
          contactSelectors query rest
            (if length els > 0 then result\<lparr> found := Some True \<rparr> else result))"

definition checkContactInfo :: "cheerio \<Rightarrow> string + check_result" where
  \<open>checkContactInfo query =
     (let result = no_properties\<lparr> found := Some False, contacts := [], score := JNum 0 \<rparr>
      in case query ''a[href^="mailto:"]'' of
           Inl e \<Rightarrow> Inr (result\<lparr> score := JNum 0 \<rparr>)
         | Inr mails \<Rightarrow>
             (case addContacts ''email'' ''mailto:'' mails result of
                (True, result) \<Rightarrow> Inr (result\<lparr> score := JNum 0 \<rparr>)
              | (False, result) \<Rightarrow>
                  (case query ''a[href^="tel:"]'' of
                     Inl e \<Rightarrow> Inr (result\<lparr> score := JNum 0 \<rparr>)
                   | Inr phones \<Rightarrow>
                       (case addContacts ''phone'' ''tel:'' phones result of
                          (True, result) \<Rightarrow> Inr (result\<lparr> score := JNum 0 \<rparr>)
                        | (False, result) \<Rightarrow>
                            (case contactSelectors query (selectors GDPR_CHECKS_contactInfo) result of
                               (True, result) \<Rightarrow> Inr (result\<lparr> score := JNum 0 \<rparr>)
                             | (False, result) \<Rightarrow>
                                 Inr (result\<lparr> score :=
                                        JNum (if found result = Some True then 80 else 0) \<rparr>))))))\<close>

section \<open>SSL inspection and cookie count\<close>

text \<open>
  \<^verbatim>\<open>checkSSL\<close>. The promise around \<^verbatim>\<open>tls.connect\<close> is resolved by the connect
  callback or by the \<^verbatim>\<open>error\<close> event, whichever the world delivers.
\<close>

definition checkSSL :: "world \<Rightarrow> attempt_env \<Rightarrow> state \<Rightarrow> string \<Rightarrow> (string + check_result) \<times> state" where
  "checkSSL w a s url =
     (let result = no_properties\<lparr> valid := Some False, details := Some [] \<rparr>
      in case parse_url w url of
           Inl e \<Rightarrow> (Inr (result\<lparr> details := Some (''Vynimka pri kontrole SSL: '' @ e) \<rparr>), s)
         | Inr parsedUrl \<Rightarrow>
             if protocol parsedUrl \<noteq> ''https:''
             then (Inr (result\<lparr> details := Some ''Stranka nepouziva HTTPS protokol.'' \<rparr>), s)
             else
               (let s' = s\<lparr> tls_connections := tls_connections s @ [hostname parsedUrl] \<rparr>
                in case tls_connect a of
                     TlsConnected cert \<Rightarrow>
                       (case cert of
                          ValidTo expiry localeDate \<Rightarrow>
                            (let v = (case expiry of Some t \<Rightarrow> t > now a | None \<Rightarrow> False)
                             in (Inr (result\<lparr> valid := Some v,
                                               details := Some (if v then ''Platny do '' @ localeDate
                                                                else ''Certifikat expiroval '' @ localeDate) \<rparr>),
                                 s'))
                        | NoCertificate \<Rightarrow>
                            (Inr (result\<lparr> details :=
                                             Some ''Certifikat nebol najdeny alebo je neplatny.'' \<rparr>),
                             s'))
                   | TlsError msg \<Rightarrow>
                       (Inr (result\<lparr> details := Some (''Chyba pri kontrole SSL: '' @ msg) \<rparr>), s')))"

definition cookieInfo :: "cookie \<Rightarrow> cookie_info" where
  "cookieInfo c =
     \<lparr> info_name = name c, info_domain = domain c, info_secure = secure c,
       info_httpOnly = httpOnly c,
       info_sameSite = (case sameSite c of
                          Some v \<Rightarrow> if v = [] then ''none'' else v
                        | None \<Rightarrow> ''none'') \<rparr>"

text \<open>\<^verbatim>\<open>checkCookies\<close>; the argument is what \<^verbatim>\<open>page.cookies()\<close> settles to.\<close>

definition checkCookies :: "string + cookie list \<Rightarrow> string + check_result" where
  "checkCookies enumerated =
     (let result = no_properties\<lparr> count := Some 0, cookieList := [], score := JNum 0 \<rparr>
      in case enumerated of
           Inl e \<Rightarrow> Inr (result\<lparr> score := JNum 50 \<rparr>)
         | Inr cookies \<Rightarrow>
             (let tier = (if length cookies = 0 then 100
                          else if length cookies \<le> 3 then 80
                          else if length cookies \<le> 10 then 60
                          else 30)
              in Inr (result\<lparr> count := Some (length cookies),
                               cookieList := map cookieInfo cookies,
                               score := JNum (of_int (min 100 (Math_round tier))) \<rparr>)))"

section \<open>Scoring and recommendations\<close>

text \<open>
  JavaScript numbers are IEEE 754 binary64 values. A finite one is represented by the
  rational it denotes, and \<open>binary64 x\<close> is the binary64 value nearest to \<open>x\<close> (a tie going
  to the even significand), which is what a literal, a product and a sum evaluate to.
  Overflow to infinity (magnitudes from \<open>2 ^ 1024\<close>), \<^verbatim>\<open>NaN\<close> and the sign of zero are
  not modelled.
\<close>

definition pow2 :: "int \<Rightarrow> rat" where
  "pow2 k = (if 0 \<le> k then 2 ^ nat k else 1 / 2 ^ nat (- k))"

text \<open>For \<open>x > 0\<close>: the \<open>e\<close> with \<open>2 ^ e \<le> x < 2 ^ (e + 1)\<close>.\<close>

definition floor_log2 :: "rat \<Rightarrow> int" where
  "floor_log2 x =
     (let k = bitlen (fst (quotient_of x)) - bitlen (snd (quotient_of x))
      in if pow2 k \<le> x then k else k - 1)"

definition round_half_even :: "rat \<Rightarrow> int" where
  "round_half_even y =
     (let n = \<lfloor>y\<rfloor>; r = y - of_int n
      in if r < 1 / 2 then n else if 1 / 2 < r then n + 1 else if even n then n else n + 1)"

definition binary64 :: "rat \<Rightarrow> rat" where
  "binary64 x =
     (if x = 0 then 0
      else (let e = max (floor_log2 \<bar>x\<bar>) (- 1022); q = pow2 (e - 52)
            in sgn x * of_int (round_half_even (\<bar>x\<bar> / q)) * q))"

definition weights :: "(string \<times> rat) list" where
  "weights =
     [(''cookieBanner'', binary64 (2 / 10)),
      (''privacyPolicy'', binary64 (2 / 10)),
      (''cookiePolicy'', binary64 (15 / 100)),
      (''contactInfo'', binary64 (1 / 10)),
      (''cookies'', binary64 (1 / 10)),
      (''preConsentViolations'', binary64 (25 / 100))]"

text \<open>One round of the loop of \<^verbatim>\<open>calculateScore\<close>.\<close>

definition addWeighted :: "checks \<Rightarrow> string \<times> rat \<Rightarrow> rat \<Rightarrow> rat" where
  "addWeighted checks entry totalScore =
     (case checks (fst entry) of
        None \<Rightarrow> totalScore
      | Some c \<Rightarrow>
          (case score c of
             JNum x \<Rightarrow> binary64 (totalScore + binary64 (x * snd entry))
           | _ \<Rightarrow> totalScore))"

definition calculateScore :: "checks \<Rightarrow> int" where
  "calculateScore checks = Math_round (fold (addWeighted checks) weights 0)"

text \<open>\<^verbatim>\<open>checks.x?.found\<close> is truthy.\<close>

definition is_found :: "check_result option \<Rightarrow> bool" where
  "is_found c = (case c of Some r \<Rightarrow> found r = Some True | None \<Rightarrow> False)"

definition violationRecommendations :: "violation \<Rightarrow> recommendation list" where
  "violationRecommendations v =
     (if violation_type v = ''pre-consent-cookies''
      then [\<lparr> priority = ''CRITICAL'',
               message = ''KRITICKE: '' @ show_nat (details_length (violation_details v)) @
                 '' cookies sa nastavuje pred suhlasom pouzivatela. Toto je zavazne porusenie GDPR!'' \<rparr>]
      else []) @
     (if violation_type v = ''tracking-requests''
      then [\<lparr> priority = ''CRITICAL'',
               message = ''KRITICKE: Tracking sluzby sa spustaju automaticky bez suhlasu!'' \<rparr>]
      else [])"

text \<open>
  The first statement of the \<^verbatim>\<open>try\<close> block of \<^verbatim>\<open>generateRecommendations\<close>: iterating
  over a missing \<^verbatim>\<open>violations\<close> property throws.
\<close>

definition criticalRecommendations :: "checks \<Rightarrow> string + recommendation list" where
  "criticalRecommendations checks =
     (case checks ''preConsentViolations'' of
        None \<Rightarrow> Inr []
      | Some c \<Rightarrow>
          if found c = Some True
          then (case violations c of
                  None \<Rightarrow> Inl ''violations is not iterable''
                | Some vs \<Rightarrow> Inr (concat (map violationRecommendations vs)))
          else Inr [])"

definition generateRecommendations :: "checks \<Rightarrow> recommendation list" where
  "generateRecommendations checks =
     (case criticalRecommendations checks of
        Inl e \<Rightarrow> [\<lparr> priority = ''ERROR'', message = ''Chyba pri generovani odporucani'' \<rparr>]
      | Inr critical \<Rightarrow>
          critical @
          (if \<not> is_found (checks ''cookieBanner'')
           then [\<lparr> priority = ''HIGH'',
                    message = ''Pridajte cookie banner s moznostou suhlasu/odmietnutia cookies'' \<rparr>]
           else []) @
          (if \<not> is_found (checks ''privacyPolicy'')
           then [\<lparr> priority = ''HIGH'',
                    message = ''Vytvorte a zverejnite zasady ochrany osobnych udajov'' \<rparr>]
           else []) @
          (if \<not> is_found (checks ''cookiePolicy'')
           then [\<lparr> priority = ''MEDIUM'', message = ''Pridajte zasady pouzivania cookies'' \<rparr>]
           else []) @
          (if \<not> is_found (checks ''contactInfo'')
           then [\<lparr> priority = ''MEDIUM'',
                    message = ''Zverejnite kontaktne udaje spravcu udajov'' \<rparr>]
           else []) @
          (if (case checks ''cookies'' of
                 Some c \<Rightarrow> (case count c of Some n \<Rightarrow> n > 10 | None \<Rightarrow> False)
               | None \<Rightarrow> False)
           then [\<lparr> priority = ''MEDIUM'',
                    message = ''Zvazte znizenie poctu cookies na minimum potrebne'' \<rparr>]
           else []))"

section \<open>The audit: \<^verbatim>\<open>checkUrl\<close>\<close>

record debug_info =
  loadTime :: "nat option"
  debug_networkRequests :: "nat option"
  debug_retryCount :: nat
  failed :: bool
  debug_error :: "string option"

record report =
  report_url :: string
  report_error :: "string option"
  report_checks :: checks
  report_score :: int
  recommendations :: "recommendation list"
  thirdPartyServices :: "detected_service list option"
  debug :: debug_info

definition initBrowser :: "attempt_env \<Rightarrow> state \<Rightarrow> (string + unit) \<times> state" where
  "initBrowser a s =
     (if \<not> browser s
      then (case launch a of
              Some e \<Rightarrow> (Inl (''Browser initialization failed: '' @ e), s)
            | None \<Rightarrow> (Inr (), s\<lparr> browser := True \<rparr>))
      else (Inr (), s))"

text \<open>\<^verbatim>\<open>page.isClosed()\<close> for the page with the given identifier.\<close>

definition isClosed :: "nat \<Rightarrow> state \<Rightarrow> bool" where
  "isClosed pg s = (pg \<notin> set (open_pages s))"

text \<open>
  The block \<^verbatim>\<open>if (page && !page.isClosed()) { if (!page || page.isClosed()) throw ... }\<close>,
  which stands at the end of the \<^verbatim>\<open>try\<close> block and again in the \<^verbatim>\<open>catch\<close> block.
\<close>

definition pageCheck :: "nat option \<Rightarrow> state \<Rightarrow> string + unit" where
  "pageCheck page s =
     (case page of
        None \<Rightarrow> Inr ()
      | Some pg \<Rightarrow>
          if \<not> isClosed pg s
          then (if isClosed pg s then Inl ''Page is closed unexpectedly'' else Inr ())
          else Inr ())"

text \<open>
  Lines 179 to 252: the page is configured and the URL is loaded. The wait for dynamic
  content that follows changes nothing the model records.
\<close>

definition loadPage :: "attempt_env \<Rightarrow> string + unit" where
  "loadPage a =
     (case configure a of
        Some e \<Rightarrow> Inl e
      | None \<Rightarrow>
          (case goto a of
             NavThrows e \<Rightarrow> Inl e
           | NavNull \<Rightarrow> Inl ''No response received from the page''
           | NavResponse status statusText \<Rightarrow>
               if status \<ge> 400 then Inl (''HTTP '' @ show_nat status @ '': '' @ statusText)
               else Inr ()))"

definition fallbackCheck :: "rat \<Rightarrow> string \<Rightarrow> check_result" where
  "fallbackCheck sc e = no_properties\<lparr> found := Some False, score := JNum sc, error := Some e \<rparr>"

text \<open>
  Lines 279 to 349: each argument is what one detector settles to, and a detector that
  rejects is replaced by the object of its \<^verbatim>\<open>catch\<close> block.
\<close>

definition assembleChecks ::
  "string + check_result \<Rightarrow> string + check_result \<Rightarrow> string + check_result \<Rightarrow>
   string + check_result \<Rightarrow> string + check_result \<Rightarrow> string + check_result \<Rightarrow>
   string + check_result \<Rightarrow> checks" where
  "assembleChecks banner privacy cookiePol contactInf ssl cookieCount preConsent =
     Map.empty
       (''cookieBanner'' \<mapsto> (case banner of Inr r \<Rightarrow> r | Inl e \<Rightarrow> fallbackCheck 0 e),
        ''privacyPolicy'' \<mapsto> (case privacy of Inr r \<Rightarrow> r | Inl e \<Rightarrow> fallbackCheck 0 e),
        ''cookiePolicy'' \<mapsto> (case cookiePol of Inr r \<Rightarrow> r | Inl e \<Rightarrow> fallbackCheck 0 e),
        ''contactInfo'' \<mapsto> (case contactInf of Inr r \<Rightarrow> r | Inl e \<Rightarrow> fallbackCheck 0 e),
        ''ssl'' \<mapsto> (case ssl of
                      Inr r \<Rightarrow> r
                    | Inl e \<Rightarrow> no_properties\<lparr> valid := Some False, details := Some e \<rparr>),
        ''cookies'' \<mapsto> (case cookieCount of
                          Inr r \<Rightarrow> r
                        | Inl e \<Rightarrow> no_properties\<lparr> count := Some 0, score := JNum 0,
                                                  error := Some e \<rparr>),
        ''preConsentViolations'' \<mapsto>
           (case preConsent of Inr r \<Rightarrow> r | Inl e \<Rightarrow> fallbackCheck 50 e))"

text \<open>
  Lines 254 to 359. The request log is read once, after the wait for dynamic content.
\<close>

definition analyse ::
  "world \<Rightarrow> attempt_env \<Rightarrow> state \<Rightarrow> string \<Rightarrow> nat \<Rightarrow> cheerio \<Rightarrow> cookie list \<Rightarrow> report \<times> state" where
  "analyse w a s url retryCount query preConsentCookies =
     (let networkRequests = captured_requests a;
          ssl = checkSSL w a s url;
          preConsent = checkPreConsentViolations preConsentCookies networkRequests;
          checks = assembleChecks (checkCookieBanner query) (checkPrivacyPolicy query)
                     (checkCookiePolicy query) (checkContactInfo query) (fst ssl)
                     (checkCookies (page_cookies_second a)) preConsent
      in (\<lparr> report_url = url, report_error = None, report_checks = checks,
            report_score = calculateScore checks,
            recommendations = generateRecommendations checks,
            thirdPartyServices =
              (case preConsent of
                 Inr r \<Rightarrow> Some (case trackingServices r of Some ts \<Rightarrow> ts | None \<Rightarrow> [])
               | Inl e \<Rightarrow> None),
            debug = \<lparr> loadTime = Some (load_time a),
                      debug_networkRequests = Some (length networkRequests),
                      debug_retryCount = retryCount, failed = False, debug_error = None \<rparr> \<rparr>,
          snd ssl))"

text \<open>
  The \<^verbatim>\<open>try\<close> block of \<^verbatim>\<open>checkUrl\<close>: what it returns or the message of what it throws,
  the variable \<^verbatim>\<open>page\<close> as the \<^verbatim>\<open>catch\<close> block sees it, and the state.
\<close>

definition attempt ::
  "world \<Rightarrow> state \<Rightarrow> string \<Rightarrow> nat \<Rightarrow> (string + report) \<times> nat option \<times> state" where
  "attempt w s url retryCount =
     (let a = attempts w retryCount
      in case parse_url w url of
           Inl e \<Rightarrow> (Inl e, None, s)
         | Inr urlObj \<Rightarrow>
             if protocol urlObj \<noteq> ''http:'' \<and> protocol urlObj \<noteq> ''https:''
             then (Inl ''Only HTTP and HTTPS URLs are supported'', None, s)
             else
               (case initBrowser a s of
                  (Inl e, s1) \<Rightarrow> (Inl e, None, s1)
                | (Inr u, s1) \<Rightarrow>
                    (case newPage a of
                       Some e \<Rightarrow> (Inl e, None, s1)
                     | None \<Rightarrow>
                         (let pg = next_page s1;
                              s2 = s1\<lparr> open_pages := open_pages s1 @ [pg], next_page := pg + 1 \<rparr>
                          in case loadPage a of
                               Inl e \<Rightarrow> (Inl e, Some pg, s2)
                             | Inr u \<Rightarrow>
                                 (case page_content a of
                                    Inl e \<Rightarrow> (Inl e, Some pg, s2)
                                  | Inr query \<Rightarrow>
                                      (case page_cookies_first a of
                                         Inl e \<Rightarrow> (Inl e, Some pg, s2)
                                       | Inr preConsentCookies \<Rightarrow>
                                           (let done = analyse w a s2 url retryCount query
                                                         preConsentCookies
                                            in case pageCheck (Some pg) (snd done) of
                                                 Inl e \<Rightarrow> (Inl e, Some pg, snd done)
                                               | Inr u \<Rightarrow>
                                                   (Inr (fst done), Some pg, snd done))))))))"

text \<open>The clean-up of the \<^verbatim>\<open>catch\<close> block; what it throws is caught and logged.\<close>

definition cleanupPage :: "nat option \<Rightarrow> state \<Rightarrow> state" where
  "cleanupPage page s =
     (if page \<noteq> None then (case pageCheck page s of Inl e \<Rightarrow> s | Inr u \<Rightarrow> s) else s)"

text \<open>\<^verbatim>\<open>this.delay(ms)\<close>: the call is recorded, the time itself is not modelled.\<close>

definition delay :: "nat \<Rightarrow> state \<Rightarrow> state" where
  "delay ms s = s\<lparr> delays := delays s @ [ms] \<rparr>"

definition errorReport :: "string \<Rightarrow> string \<Rightarrow> nat \<Rightarrow> report" where
  "errorReport url e retryCount =
     \<lparr> report_url = url, report_error = Some e, report_checks = Map.empty, report_score = 0,
       recommendations = [\<lparr> priority = ''ERROR'', message = ''Chyba pri kontrole: '' @ e \<rparr>],
       thirdPartyServices = None,
       debug = \<lparr> loadTime = None, debug_networkRequests = None, debug_retryCount = retryCount,
                 failed = True, debug_error = Some e \<rparr> \<rparr>"

text \<open>
  \<^verbatim>\<open>checkUrl(url, retryCount)\<close>. The result is what the returned promise settles to:
  \<open>Inr\<close> a report when it resolves, \<open>Inl\<close> a message when it rejects.
\<close>

function checkUrl :: "world \<Rightarrow> state \<Rightarrow> string \<Rightarrow> nat \<Rightarrow> (string + report) \<times> state" where
  "checkUrl w s url retryCount =
     (case attempt w s url retryCount of
        (Inr results, page, s') \<Rightarrow> (Inr results, s')
      | (Inl e, page, s') \<Rightarrow>
          (let s'' = cleanupPage page s'
           in if retryCount < maxRetries
              then checkUrl w (delay (3000 * (retryCount + 1)) s'') url (retryCount + 1)
              else (Inr (errorReport url e retryCount), s'')))"
  by pat_completeness auto
termination
  by (relation "measure (\<lambda>(w, s, url, retryCount). maxRetries - retryCount)") auto

declare checkUrl.simps [simp del]

section \<open>Example inputs\<close>

definition example_cookie :: "jsval \<Rightarrow> cookie" where
  "example_cookie n =
     \<lparr> name = n, domain = ''example.com'', secure = False, httpOnly = False, sameSite = None \<rparr>"

definition example_request :: "string \<Rightarrow> request" where
  "example_request u = \<lparr> request_url = u, request_type = ''script'' \<rparr>"



section \<open>Notions used in the statements\<close>


text \<open>
  The two kinds of report that \<open>checkUrl\<close> returns: the error report of its \<^verbatim>\<open>catch\<close>
  block, and the report assembled at the end of a \<^verbatim>\<open>try\<close> block.
\<close>

definition is_error_report :: "string \<Rightarrow> report \<Rightarrow> bool" where
  "is_error_report url r = (\<exists>e n. r = errorReport url e n)"

definition is_success_report :: "world \<Rightarrow> string \<Rightarrow> report \<Rightarrow> bool" where
  "is_success_report w url r = (\<exists>a s k query cs. r = fst (analyse w a s url k query cs))"

text \<open>The six scored dimensions that the specification names.\<close>

definition six_dimensions :: "string set" where
  "six_dimensions = {''cookieBanner'', ''privacyPolicy'', ''cookiePolicy'', ''contactInfo'',
                     ''cookies'', ''preConsentViolations''}"

section \<open>Example worlds\<close>

text \<open>
  A site that answers with status 200, the same site with a navigation that throws, and
  three worlds: every attempt succeeds, the first two attempts fail, every attempt fails.
\<close>

definition example_parse :: "string \<Rightarrow> string + parsed_url" where
  "example_parse url =
     (if url = ''https://example.com/''
      then Inr \<lparr> protocol = ''https:'', hostname = ''example.com'' \<rparr>
      else if url = ''http://example.com/''
      then Inr \<lparr> protocol = ''http:'', hostname = ''example.com'' \<rparr>
      else Inl ''Invalid URL'')"

definition example_page :: cheerio where
  "example_page selector =
     (if selector = ''body''
      then Inr [\<lparr> node_text = ''We use cookies. Privacy'', node_href = None \<rparr>]
      else if selector = ''a''
      then Inr [\<lparr> node_text = ''Privacy'', node_href = Some ''/privacy'' \<rparr>]
      else Inr [])"

definition good_attempt :: attempt_env where
  "good_attempt =
     \<lparr> launch = None, newPage = None, configure = None, goto = NavResponse 200 ''OK'',
       captured_requests = [example_request ''https://example.com/''],
       load_time = 120, page_content = Inr example_page,
       page_cookies_first = Inr [example_cookie (JStr ''session_id'')],
       page_cookies_second = Inr [example_cookie (JStr ''session_id'')],
       tls_connect = TlsConnected (ValidTo (Some 2000) ''1/1/2030''), now = 1000 \<rparr>"

definition failing_attempt :: "string \<Rightarrow> attempt_env" where
  "failing_attempt e = good_attempt\<lparr> goto := NavThrows e \<rparr>"

definition world_ok :: world where
  "world_ok = \<lparr> parse_url = example_parse, attempts = (\<lambda>k. good_attempt) \<rparr>"

definition world_fail_twice :: world where
  "world_fail_twice =
     \<lparr> parse_url = example_parse,
       attempts = (\<lambda>k. if k < 2 then failing_attempt ''net::ERR_CONNECTION_RESET''
                       else good_attempt) \<rparr>"

definition world_always_fail :: world where
  "world_always_fail =
     \<lparr> parse_url = example_parse,
       attempts = (\<lambda>k. failing_attempt (''Navigation timeout, attempt '' @ show_nat (k + 1))) \<rparr>"

definition initial_state :: state where
  "initial_state =
     \<lparr> browser = False, open_pages = [], next_page = 0, delays = [], tls_connections = [] \<rparr>"

text \<open>
  The weighted sum of the specification, in exact arithmetic: each dimension's numeric
  score times its fixed weight, a missing or non-numeric score counting as zero. It is
  stated here to be compared with \<open>calculateScore\<close>.
\<close>

definition numericScore :: "checks \<Rightarrow> string \<Rightarrow> rat" where
  "numericScore checks key =
     (case checks key of
        None \<Rightarrow> 0
      | Some c \<Rightarrow> (case score c of JNum x \<Rightarrow> x | _ \<Rightarrow> 0))"

definition spec_weighted_sum :: "checks \<Rightarrow> rat" where
  "spec_weighted_sum checks =
     numericScore checks ''cookieBanner'' * (20 / 100) +
     numericScore checks ''privacyPolicy'' * (20 / 100) +
     numericScore checks ''cookiePolicy'' * (15 / 100) +
     numericScore checks ''contactInfo'' * (10 / 100) +
     numericScore checks ''cookies'' * (10 / 100) +
     numericScore checks ''preConsentViolations'' * (25 / 100)"



text \<open>
  The \<^verbatim>\<open>checks\<close> object of the specification's example, and one whose exact weighted
  sum is the tie 49.5.
\<close>

definition scored :: "rat \<Rightarrow> check_result" where
  "scored x = no_properties\<lparr> score := JNum x \<rparr>"


definition tie_checks :: checks where
  "tie_checks =
     [''cookieBanner'' \<mapsto> scored 44, ''privacyPolicy'' \<mapsto> scored 91,
      ''cookiePolicy'' \<mapsto> scored 57, ''contactInfo'' \<mapsto> scored 18,
      ''cookies'' \<mapsto> scored 54, ''preConsentViolations'' \<mapsto> scored 27]"

text \<open>
  The score of the specification for the violation analysis: 15 for each non-essential
  cookie and 10 for each captured request whose URL matches some tracking service, however
  many services it matches. It is stated here to be compared with
  \<open>checkPreConsentViolations\<close>.
\<close>

definition nonEssentialCount :: "cookie list \<Rightarrow> nat" where
  "nonEssentialCount cookies = length (filter (\<lambda>c. isProblematic c = Inr True) cookies)"

definition spec_trackingRequestCount :: "request list \<Rightarrow> nat" where
  "spec_trackingRequestCount networkRequests =
     length (filter (\<lambda>request. list_ex (\<lambda>entry. matchesService (snd entry) request)
                                    TRACKING_SERVICES) networkRequests)"

definition spec_preConsent_score :: "cookie list \<Rightarrow> request list \<Rightarrow> int" where
  "spec_preConsent_score cookies networkRequests =
     max 0 (100 - 15 * int (nonEssentialCount cookies)
                - 10 * int (spec_trackingRequestCount networkRequests))"

text \<open>
  One request whose URL contains a pattern of Google Analytics and a pattern of Facebook
  Pixel, captured together with two non-essential cookies.
\<close>

definition two_service_request :: request where
  "two_service_request = example_request ''https://www.google-analytics.com/collect?x=_fbp''"

definition two_cookies :: "cookie list" where
  "two_cookies = [example_cookie (JStr ''_ga''), example_cookie (JStr ''_gid'')]"

section \<open>Strings\<close>

lemma startsWith_iff: "startsWith s p \<longleftrightarrow> (\<exists>post. s = p @ post)"
  by (induction s p rule: startsWith.induct) auto

lemma str_includes_iff: "str_includes s p \<longleftrightarrow> (\<exists>pre post. s = pre @ p @ post)"
proof (induction s)
  case Nil
  then show ?case by auto
next
  case (Cons c cs)
  show ?case
  proof
    assume "str_includes (c # cs) p"
    then consider "startsWith (c # cs) p" | "str_includes cs p" by auto
    then show "\<exists>pre post. c # cs = pre @ p @ post"
    proof cases
      case 1
      then obtain post where "c # cs = p @ post" by (auto simp: startsWith_iff)
      then have "c # cs = [] @ p @ post" by simp
      then show ?thesis by blast
    next
      case 2
      then obtain pre post where "cs = pre @ p @ post" using Cons.IH by auto
      then have "c # cs = (c # pre) @ p @ post" by simp
      then show ?thesis by blast
    qed
  next
    assume "\<exists>pre post. c # cs = pre @ p @ post"
    then obtain pre post where eq: "c # cs = pre @ p @ post" by blast
    show "str_includes (c # cs) p"
    proof (cases pre)
      case Nil
      then have "startsWith (c # cs) p" using eq by (auto simp: startsWith_iff)
      then show ?thesis by simp
    next
      case (Cons a pre')
      then have "cs = pre' @ p @ post" using eq by simp
      then have "str_includes cs p" using Cons.IH by blast
      then show ?thesis by simp
    qed
  qed
qed

section \<open>Properties of the violation analysis\<close>

lemma essentialPatterns_lower: "map toLowerCase essentialPatterns = essentialPatterns"
  by code_simp

lemma isEssential_iff:
  "isEssential n \<longleftrightarrow> (\<exists>pattern \<in> set essentialPatterns. \<exists>pre post. n = pre @ pattern @ post)"
proof -
  have "isEssential n \<longleftrightarrow> (\<exists>p \<in> set (map toLowerCase essentialPatterns). str_includes n p)"
    by (simp add: isEssential_def list_ex_iff)
  then show ?thesis
    by (simp only: essentialPatterns_lower str_includes_iff)
qed

lemma isProblematic_string:
  "name c = JStr s \<Longrightarrow> isProblematic c = Inr (\<not> isEssential (toLowerCase s))"
  by (cases "s = []") (simp_all add: isProblematic_def toLowerCase_def)

lemma problematicCookies_ok:
  "\<forall>c \<in> set cookies. \<exists>b. isProblematic c = Inr b \<Longrightarrow>
   problematicCookies cookies = Inr (filter (\<lambda>c. isProblematic c = Inr True) cookies)"
  by (induction cookies) auto


lemma preConsent_score:
  assumes "problematicCookies cookies = Inr problematic"
  shows "\<exists>r. checkPreConsentViolations cookies reqs = Inr r \<and>
           score r = JNum (of_int (max 0 (100 - 15 * int (length problematic)
                                         - 10 * int (length (trackingRequests reqs))))) \<and>
           found r = Some (problematic \<noteq> [] \<or> trackingRequests reqs \<noteq> [])"
proof (cases "problematic = []")
  case True
  show ?thesis
  proof (cases "trackingRequests reqs = []")
    case True
    with \<open>problematic = []\<close> assms show ?thesis
      by (simp add: checkPreConsentViolations_def Let_def trackingRequests_def no_properties_def)
  next
    case False
    with \<open>problematic = []\<close> assms show ?thesis
      by (simp add: checkPreConsentViolations_def Let_def trackingRequests_def no_properties_def addViolation_def)
  qed
next
  case False
  show ?thesis
  proof (cases "trackingRequests reqs = []")
    case True
    with \<open>problematic \<noteq> []\<close> assms show ?thesis
      by (simp add: checkPreConsentViolations_def Let_def trackingRequests_def no_properties_def addViolation_def)
  next
    case False
    with \<open>problematic \<noteq> []\<close> assms show ?thesis
      by (simp add: checkPreConsentViolations_def Let_def trackingRequests_def no_properties_def addViolation_def)
  qed
qed



lemma preConsent_cookie_violation:
  assumes "problematicCookies cookies = Inr problematic" and "problematic \<noteq> []"
  shows "\<exists>r v vs. checkPreConsentViolations cookies reqs = Inr r \<and>
           violations r = Some (v # vs) \<and> violation_type v = ''pre-consent-cookies'' \<and>
           severity v = ''HIGH'' \<and>
           violation_details v = CookieDetails (map cookieDetail problematic)"
proof (cases "trackingRequests reqs = []")
  case True
  with assms show ?thesis
    by (simp add: checkPreConsentViolations_def Let_def trackingRequests_def no_properties_def
        addViolation_def)
next
  case False
  with assms show ?thesis
    by (simp add: checkPreConsentViolations_def Let_def trackingRequests_def no_properties_def
        addViolation_def)
qed





text \<open>
  Claim C4, as stated, does not hold: the loop over the tracking services has no
  \<^verbatim>\<open>break\<close>, so a request whose URL matches two services is entered twice in
  \<^verbatim>\<open>trackingRequests\<close> and costs 20. With two non-essential cookies and the one request
  \<^verbatim>\<open>https://www.google-analytics.com/collect?x=_fbp\<close> the score is 50, not 60.
\<close>

theorem tracking_request_counterexample:
  "\<not> isl (checkPreConsentViolations two_cookies [two_service_request]) \<and>
   score (projr (checkPreConsentViolations two_cookies [two_service_request])) = JNum 50 \<and>
   nonEssentialCount two_cookies = 2 \<and>
   spec_trackingRequestCount [two_service_request] = 1 \<and>
   length (trackingRequests [two_service_request]) = 2 \<and>
   spec_preConsent_score two_cookies [two_service_request] = 60"
  by code_simp





text \<open>
  Claim C5. A captured cookie is essential exactly when its lower-cased name contains one
  of the fixed allow-list substrings; a cookie without a name counts as non-essential.
  \<^verbatim>\<open>session_id\<close> is essential, \<^verbatim>\<open>_ga\<close> is not, and a captured \<^verbatim>\<open>_ga\<close> cookie
  produces a violation of type \<^verbatim>\<open>pre-consent-cookies\<close> with severity \<^verbatim>\<open>HIGH\<close> whose
  details list that cookie.
\<close>

theorem essential_cookie_classification:
  "(\<forall>c s. name c = JStr s \<longrightarrow>
      isProblematic c =
        Inr (\<not> (\<exists>pattern \<in> set essentialPatterns. \<exists>pre post. toLowerCase s = pre @ pattern @ post))) \<and>
   (\<forall>c. \<not> truthy (name c) \<longrightarrow> isProblematic c = Inr True) \<and>
   (\<forall>c. name c = JStr ''session_id'' \<longrightarrow> isProblematic c = Inr False) \<and>
   (\<forall>c. name c = JStr ''_ga'' \<longrightarrow> isProblematic c = Inr True) \<and>
   (\<forall>cookies. (\<forall>c \<in> set cookies. \<exists>s. name c = JStr s) \<longrightarrow>
      problematicCookies cookies = Inr (filter (\<lambda>c. isProblematic c = Inr True) cookies)) \<and>
   (\<forall>cookies reqs c.
      (\<forall>c \<in> set cookies. \<exists>s. name c = JStr s) \<and> c \<in> set cookies \<and> name c = JStr ''_ga'' \<longrightarrow>
      (\<exists>r v vs ds. checkPreConsentViolations cookies reqs = Inr r \<and> found r = Some True \<and>
          violations r = Some (v # vs) \<and> violation_type v = ''pre-consent-cookies'' \<and>
          severity v = ''HIGH'' \<and> violation_details v = CookieDetails ds \<and>
          cookieDetail c \<in> set ds))"
proof (intro conjI allI impI)
  fix c :: cookie and s
  assume "name c = JStr s"
  then show "isProblematic c =
        Inr (\<not> (\<exists>pattern \<in> set essentialPatterns. \<exists>pre post. toLowerCase s = pre @ pattern @ post))"
    by (simp add: isProblematic_string isEssential_iff)
next
  fix c :: cookie
  assume "\<not> truthy (name c)"
  moreover have "\<not> isEssential (toLowerCase [])" by code_simp
  ultimately show "isProblematic c = Inr True"
    by (simp add: isProblematic_def)
next
  fix c :: cookie
  assume "name c = JStr ''session_id''"
  moreover have "isEssential (toLowerCase ''session_id'')" by code_simp
  ultimately show "isProblematic c = Inr False"
    by (simp add: isProblematic_string)
next
  fix c :: cookie
  assume "name c = JStr ''_ga''"
  moreover have "\<not> isEssential (toLowerCase ''_ga'')" by code_simp
  ultimately show "isProblematic c = Inr True"
    by (simp add: isProblematic_string)
next
  fix cookies :: "cookie list"
  assume "\<forall>c \<in> set cookies. \<exists>s. name c = JStr s"
  then have "\<forall>c \<in> set cookies. \<exists>b. isProblematic c = Inr b"
    using isProblematic_string by blast
  then show "problematicCookies cookies = Inr (filter (\<lambda>c. isProblematic c = Inr True) cookies)"
    by (rule problematicCookies_ok)
next
  fix cookies :: "cookie list" and reqs c
  assume a: "(\<forall>c \<in> set cookies. \<exists>s. name c = JStr s) \<and> c \<in> set cookies \<and> name c = JStr ''_ga''"
  let ?p = "filter (\<lambda>c. isProblematic c = Inr True) cookies"
  have "\<forall>c \<in> set cookies. \<exists>b. isProblematic c = Inr b"
    using a isProblematic_string by blast
  then have p: "problematicCookies cookies = Inr ?p"
    by (rule problematicCookies_ok)
  have "\<not> isEssential (toLowerCase ''_ga'')" by code_simp
  then have "isProblematic c = Inr True"
    using a by (simp add: isProblematic_string)
  then have mem: "c \<in> set ?p" using a by simp
  then have ne: "?p \<noteq> []" by (auto simp: filter_empty_conv)
  obtain r where r: "checkPreConsentViolations cookies reqs = Inr r"
      and f: "found r = Some (?p \<noteq> [] \<or> trackingRequests reqs \<noteq> [])"
    using preConsent_score [OF p, of reqs] by blast
  obtain r' v vs where r': "checkPreConsentViolations cookies reqs = Inr r'"
      and v: "violations r' = Some (v # vs)" "violation_type v = ''pre-consent-cookies''"
        "severity v = ''HIGH''" "violation_details v = CookieDetails (map cookieDetail ?p)"
    using preConsent_cookie_violation [OF p ne, of reqs] by blast
  have same: "r' = r" using r r' by simp
  have ft: "found r = Some True" using f ne by simp
  have vr: "violations r = Some (v # vs)" using v(1) same by simp
  have md: "cookieDetail c \<in> set (map cookieDetail ?p)" using mem by simp
  show "\<exists>r v vs ds. checkPreConsentViolations cookies reqs = Inr r \<and> found r = Some True \<and>
          violations r = Some (v # vs) \<and> violation_type v = ''pre-consent-cookies'' \<and>
          severity v = ''HIGH'' \<and> violation_details v = CookieDetails ds \<and>
          cookieDetail c \<in> set ds"
    using r ft vr v(2) v(3) v(4) md by blast
qed

theorem essential_cookie_classification_witness:
  "isProblematic (example_cookie (JStr ''PHPSESSID'')) = Inr False \<and>
   isProblematic (example_cookie (JStr ''_ga'')) = Inr True \<and>
   (\<exists>r v vs ds. checkPreConsentViolations
        [example_cookie (JStr ''session_id''), example_cookie (JStr ''_ga'')] [] = Inr r \<and>
      found r = Some True \<and> violations r = Some (v # vs) \<and>
      violation_type v = ''pre-consent-cookies'' \<and> severity v = ''HIGH'' \<and>
      violation_details v = CookieDetails ds \<and>
      cookieDetail (example_cookie (JStr ''_ga'')) \<in> set ds)"
proof -
  note cls = essential_cookie_classification
  have e: "\<exists>pattern \<in> set essentialPatterns. \<exists>pre post. toLowerCase ''PHPSESSID'' = pre @ pattern @ post"
  proof -
    have "toLowerCase ''PHPSESSID'' = [] @ ''phpsessid'' @ []" by code_simp
    moreover have "''phpsessid'' \<in> set essentialPatterns" by (simp add: essentialPatterns_def)
    ultimately show ?thesis by blast
  qed
  have 1: "isProblematic (example_cookie (JStr ''PHPSESSID'')) = Inr False"
    using cls [THEN conjunct1, rule_format, of "example_cookie (JStr ''PHPSESSID'')" "''PHPSESSID''"] e
    by (simp add: example_cookie_def)
  have 2: "isProblematic (example_cookie (JStr ''_ga'')) = Inr True"
    using cls [THEN conjunct2, THEN conjunct2, THEN conjunct2, THEN conjunct1, rule_format,
        of "example_cookie (JStr ''_ga'')"]
    by (simp add: example_cookie_def)
  have 3: "\<exists>r v vs ds. checkPreConsentViolations
        [example_cookie (JStr ''session_id''), example_cookie (JStr ''_ga'')] [] = Inr r \<and>
      found r = Some True \<and> violations r = Some (v # vs) \<and>
      violation_type v = ''pre-consent-cookies'' \<and> severity v = ''HIGH'' \<and>
      violation_details v = CookieDetails ds \<and>
      cookieDetail (example_cookie (JStr ''_ga'')) \<in> set ds"
    using cls [THEN conjunct2, THEN conjunct2, THEN conjunct2, THEN conjunct2, THEN conjunct2, rule_format,
        of "[example_cookie (JStr ''session_id''), example_cookie (JStr ''_ga'')]"
           "example_cookie (JStr ''_ga'')" "[]"]
    by (simp add: example_cookie_def)
  from 1 2 3 show ?thesis by blast
qed

section \<open>Properties of the cookie count\<close>

lemma Math_round_of_int: "Math_round (of_int n) = n"
  unfolding Math_round_def by linarith

lemma Math_round_tiers:
  "Math_round 100 = 100" "Math_round 80 = 80" "Math_round 60 = 60" "Math_round 30 = 30"
  using Math_round_of_int [of 100] Math_round_of_int [of 80] Math_round_of_int [of 60]
    Math_round_of_int [of 30]
  by simp_all

text \<open>
  Claim C10. \<^verbatim>\<open>checkCookies\<close> scores by the number of enumerated cookies alone: 100 for
  none, 80 for 1 to 3, 60 for 4 to 10 and 30 for more than 10; when the enumeration
  throws, the score is 50, and that is the score of the dimension in the report.
\<close>

theorem checkCookies_tiers:
  "(\<forall>cookies. \<exists>r. checkCookies (Inr cookies) = Inr r \<and> count r = Some (length cookies) \<and>
      score r = JNum (if length cookies = 0 then 100
                      else if length cookies \<le> 3 then 80
                      else if length cookies \<le> 10 then 60 else 30)) \<and>
   (\<forall>e. \<exists>r. checkCookies (Inl e) = Inr r \<and> score r = JNum 50) \<and>
   (\<forall>b p cp ci ssl pc e.
      \<exists>r. assembleChecks b p cp ci ssl (checkCookies (Inl e)) pc ''cookies'' = Some r \<and>
          score r = JNum 50)"
  by (simp add: checkCookies_def Let_def no_properties_def Math_round_tiers assembleChecks_def)

theorem checkCookies_tiers_witness:
  "\<exists>r. checkCookies (Inr (replicate 4 (example_cookie (JStr ''a'')))) = Inr r \<and>
       count r = Some 4 \<and> score r = JNum 60"
  using checkCookies_tiers [THEN conjunct1, rule_format, of "replicate 4 (example_cookie (JStr ''a''))"]
  by simp

section \<open>Properties of the cookie banner check\<close>









section \<open>Properties of the audit\<close>

lemma cleanupPage_id: "cleanupPage page s = s"
  by (simp add: cleanupPage_def split: sum.splits)

lemma pageCheck_ok: "pageCheck page s = Inr ()"
  by (simp add: pageCheck_def split: option.splits)

lemma attempt_success:
  assumes "attempt w s url k = (Inr r, page, s')"
  shows "\<exists>s2 query cs. r = fst (analyse w (attempts w k) s2 url k query cs)"
  using assms
  by (auto simp: attempt_def Let_def pageCheck_ok
      split: sum.splits option.splits prod.splits if_splits)

lemma checkUrl_result:
  "\<exists>r. fst (checkUrl w s url k) = Inr r \<and> (is_error_report url r \<or> is_success_report w url r)"
proof (induction w s url k rule: checkUrl.induct)
  case (1 w s url retryCount)
  obtain out page s' where a: "attempt w s url retryCount = (out, page, s')"
    by (cases "attempt w s url retryCount") auto
  show ?case
  proof (cases out)
    case (Inr results)
    then have "fst (checkUrl w s url retryCount) = Inr results"
      using a by (subst checkUrl.simps) simp
    moreover have "is_success_report w url results"
      using attempt_success a Inr unfolding is_success_report_def by blast
    ultimately show ?thesis by blast
  next
    case (Inl e)
    show ?thesis
    proof (cases "retryCount < maxRetries")
      case True
      then have "checkUrl w s url retryCount =
                 checkUrl w (delay (3000 * (retryCount + 1)) (cleanupPage page s')) url (retryCount + 1)"
        using a Inl by (subst checkUrl.simps) simp
      moreover have "\<exists>r. fst (checkUrl w (delay (3000 * (retryCount + 1)) (cleanupPage page s')) url (retryCount + 1)) = Inr r \<and>
                     (is_error_report url r \<or> is_success_report w url r)"
        using "1.IH" a Inl True by simp
      ultimately show ?thesis by simp
    next
      case False
      then have "fst (checkUrl w s url retryCount) = Inr (errorReport url e retryCount)"
        using a Inl by (subst checkUrl.simps) simp
      then show ?thesis unfolding is_error_report_def by blast
    qed
  qed
qed

lemma checkUrl_success_step:
  "attempt w s url k = (Inr r, page, s') \<Longrightarrow> checkUrl w s url k = (Inr r, s')"
  by (subst checkUrl.simps) simp

lemma checkUrl_retry_step:
  "attempt w s url k = (Inl e, page, s') \<Longrightarrow> k < maxRetries \<Longrightarrow>
   checkUrl w s url k = checkUrl w (delay (3000 * (k + 1)) s') url (k + 1)"
  by (subst checkUrl.simps) (simp add: cleanupPage_id)

lemma checkUrl_exhausted_step:
  "attempt w s url k = (Inl e, page, s') \<Longrightarrow> \<not> k < maxRetries \<Longrightarrow>
   checkUrl w s url k = (Inr (errorReport url e k), s')"
  by (subst checkUrl.simps) (simp add: cleanupPage_id)

lemma checkSSL_delays: "delays (snd (checkSSL w a s url)) = delays s"
  by (simp add: checkSSL_def Let_def split: sum.splits tls_outcome.splits certificate.splits)

lemma checkSSL_open_pages: "open_pages (snd (checkSSL w a s url)) = open_pages s"
  by (simp add: checkSSL_def Let_def split: sum.splits tls_outcome.splits certificate.splits)

lemma analyse_state: "snd (analyse w a s url k query cs) = snd (checkSSL w a s url)"
  by (simp add: analyse_def Let_def)

lemma analyse_report:
  "failed (debug (fst (analyse w a s url k query cs))) = False"
  "debug_retryCount (debug (fst (analyse w a s url k query cs))) = k"
  "report_error (fst (analyse w a s url k query cs)) = None"
  "report_checks (fst (analyse w a s url k query cs)) =
     assembleChecks (checkCookieBanner query) (checkPrivacyPolicy query) (checkCookiePolicy query)
       (checkContactInfo query) (fst (checkSSL w a s url)) (checkCookies (page_cookies_second a))
       (checkPreConsentViolations cs (captured_requests a))"
  by (simp_all add: analyse_def Let_def)

lemma attempt_delays: "delays (snd (snd (attempt w s url k))) = delays s"
  by (auto simp: attempt_def Let_def pageCheck_ok initBrowser_def analyse_state checkSSL_delays
      split: sum.splits option.splits prod.splits if_splits)

lemma attempt_open_pages:
  "set (open_pages s) \<subseteq> set (open_pages (snd (snd (attempt w s url k))))"
  by (auto simp: attempt_def Let_def pageCheck_ok initBrowser_def analyse_state checkSSL_open_pages
      split: sum.splits option.splits prod.splits if_splits)

lemma attempt_page_stays_open:
  "attempt w s url k = (out, Some pg, s') \<Longrightarrow> pg \<in> set (open_pages s')"
  by (auto simp: attempt_def Let_def pageCheck_ok initBrowser_def analyse_state checkSSL_open_pages
      split: sum.splits option.splits prod.splits if_splits)

lemma dom_assembleChecks:
  "dom (assembleChecks b p cp ci ssl ck pc) = insert ''ssl'' six_dimensions"
  by (auto simp: assembleChecks_def six_dimensions_def)

lemma attempt_success_report:
  assumes "attempt w s url k = (Inr r, page, s')"
  shows "failed (debug r) = False" and "debug_retryCount (debug r) = k"
proof -
  obtain s2 query cs where "r = fst (analyse w (attempts w k) s2 url k query cs)"
    using attempt_success [OF assms] by blast
  then show "failed (debug r) = False" and "debug_retryCount (debug r) = k"
    by (simp_all add: analyse_report)
qed

lemma errorReport_fields:
  "report_score (errorReport url e k) = 0"
  "report_checks (errorReport url e k) = Map.empty"
  "recommendations (errorReport url e k) =
     [\<lparr> priority = ''ERROR'', message = ''Chyba pri kontrole: '' @ e \<rparr>]"
  "report_error (errorReport url e k) = Some e"
  "failed (debug (errorReport url e k)) = True"
  "debug_retryCount (debug (errorReport url e k)) = k"
  by (simp_all add: errorReport_def)

lemma checkUrl_three_failures:
  assumes "attempt w s0 url 0 = (Inl e0, p0, s1)"
    and "attempt w (delay 3000 s1) url 1 = (Inl e1, p1, s2)"
    and "attempt w (delay 6000 s2) url 2 = (Inl e2, p2, s3)"
  shows "checkUrl w s0 url 0 = (Inr (errorReport url e2 2), s3)"
proof -
  have "checkUrl w s0 url 0 = checkUrl w (delay 3000 s1) url 1"
    using checkUrl_retry_step [OF assms(1)] by (simp add: maxRetries_def)
  also have "\<dots> = checkUrl w (delay 6000 s2) url 2"
    using checkUrl_retry_step [OF assms(2)] by (simp add: maxRetries_def numeral_2_eq_2)
  also have "\<dots> = (Inr (errorReport url e2 2), s3)"
    using checkUrl_exhausted_step [OF assms(3)] by (simp add: maxRetries_def)
  finally show ?thesis .
qed

lemma checkUrl_third_succeeds:
  assumes "attempt w s0 url 0 = (Inl e0, p0, s1)"
    and "attempt w (delay 3000 s1) url 1 = (Inl e1, p1, s2)"
    and "attempt w (delay 6000 s2) url 2 = (Inr r, p2, s3)"
  shows "checkUrl w s0 url 0 = (Inr r, s3)"
proof -
  have "checkUrl w s0 url 0 = checkUrl w (delay 3000 s1) url 1"
    using checkUrl_retry_step [OF assms(1)] by (simp add: maxRetries_def)
  also have "\<dots> = checkUrl w (delay 6000 s2) url 2"
    using checkUrl_retry_step [OF assms(2)] by (simp add: maxRetries_def numeral_2_eq_2)
  also have "\<dots> = (Inr r, s3)"
    using checkUrl_success_step [OF assms(3)] .
  finally show ?thesis .
qed

lemma attempt_delays_eq:
  "attempt w s url k = (out, page, s') \<Longrightarrow> delays s' = delays s"
  using attempt_delays [of w s url k] by simp

lemma checkUrl_delays:
  "\<exists>r. fst (checkUrl w s url k) = Inr r \<and> k \<le> debug_retryCount (debug r) \<and>
       debug_retryCount (debug r) \<le> max k maxRetries \<and>
       delays (snd (checkUrl w s url k)) =
         delays s @ map (\<lambda>i. 3000 * (i + 1)) [k..<debug_retryCount (debug r)]"
proof (induction w s url k rule: checkUrl.induct)
  case (1 w s url retryCount)
  obtain out page s' where a: "attempt w s url retryCount = (out, page, s')"
    by (cases "attempt w s url retryCount") auto
  have d: "delays s' = delays s" using a by (rule attempt_delays_eq)
  show ?case
  proof (cases out)
    case (Inr results)
    then have "checkUrl w s url retryCount = (Inr results, s')"
      using a checkUrl_success_step by blast
    moreover have "debug_retryCount (debug results) = retryCount"
      using attempt_success_report a Inr by blast
    ultimately show ?thesis using d by simp
  next
    case (Inl e)
    show ?thesis
    proof (cases "retryCount < maxRetries")
      case True
      let ?s = "delay (3000 * (retryCount + 1)) s'"
      have step: "checkUrl w s url retryCount = checkUrl w ?s url (retryCount + 1)"
        using a Inl True checkUrl_retry_step by blast
      have "\<exists>r. fst (checkUrl w ?s url (retryCount + 1)) = Inr r \<and>
               retryCount + 1 \<le> debug_retryCount (debug r) \<and>
               debug_retryCount (debug r) \<le> max (retryCount + 1) maxRetries \<and>
               delays (snd (checkUrl w ?s url (retryCount + 1))) =
                 delays ?s @ map (\<lambda>i. 3000 * (i + 1)) [retryCount + 1..<debug_retryCount (debug r)]"
        using "1.IH" a Inl True by (simp add: cleanupPage_id)
      then obtain r where r: "fst (checkUrl w ?s url (retryCount + 1)) = Inr r"
        "retryCount + 1 \<le> debug_retryCount (debug r)"
        "debug_retryCount (debug r) \<le> max (retryCount + 1) maxRetries"
        "delays (snd (checkUrl w ?s url (retryCount + 1))) =
           delays ?s @ map (\<lambda>i. 3000 * (i + 1)) [retryCount + 1..<debug_retryCount (debug r)]"
        by blast
      have "[retryCount..<debug_retryCount (debug r)] =
            retryCount # [retryCount + 1..<debug_retryCount (debug r)]"
        using r(2) by (simp add: upt_conv_Cons)
      then have "delays (snd (checkUrl w s url retryCount)) =
         delays s @ map (\<lambda>i. 3000 * (i + 1)) [retryCount..<debug_retryCount (debug r)]"
        using r(4) step d by (simp add: delay_def)
      moreover have "debug_retryCount (debug r) \<le> max retryCount maxRetries"
        using r(3) True by simp
      ultimately show ?thesis using r(1) r(2) step by auto
    next
      case False
      then have "checkUrl w s url retryCount = (Inr (errorReport url e retryCount), s')"
        using a Inl checkUrl_exhausted_step by blast
      then show ?thesis using d by (simp add: errorReport_fields)
    qed
  qed
qed

lemma checkUrl_keys:
  "\<exists>r. fst (checkUrl w s url k) = Inr r \<and>
       dom (report_checks r) =
         (if failed (debug r) then {} else insert ''ssl'' six_dimensions)"
proof -
  obtain r where r: "fst (checkUrl w s url k) = Inr r"
    and c: "is_error_report url r \<or> is_success_report w url r"
    using checkUrl_result by blast
  from c have "dom (report_checks r) =
         (if failed (debug r) then {} else insert ''ssl'' six_dimensions)"
  proof
    assume "is_error_report url r"
    then show ?thesis by (auto simp: is_error_report_def errorReport_fields)
  next
    assume "is_success_report w url r"
    then obtain a s k query cs where "r = fst (analyse w a s url k query cs)"
      unfolding is_success_report_def by blast
    then show ?thesis
      by (simp add: analyse_report dom_assembleChecks)
  qed
  with r show ?thesis by blast
qed

lemma checkUrl_open_pages:
  "set (open_pages s) \<subseteq> set (open_pages (snd (checkUrl w s url k)))"
proof (induction w s url k rule: checkUrl.induct)
  case (1 w s url retryCount)
  obtain out page s' where a: "attempt w s url retryCount = (out, page, s')"
    by (cases "attempt w s url retryCount") auto
  have o: "set (open_pages s) \<subseteq> set (open_pages s')"
    using attempt_open_pages [of s w url retryCount] a by simp
  show ?case
  proof (cases out)
    case (Inr results)
    then show ?thesis using a o checkUrl_success_step [of w s url retryCount results page s'] by simp
  next
    case (Inl e)
    show ?thesis
    proof (cases "retryCount < maxRetries")
      case True
      let ?s = "delay (3000 * (retryCount + 1)) s'"
      have step: "checkUrl w s url retryCount = checkUrl w ?s url (retryCount + 1)"
        using a Inl True checkUrl_retry_step by blast
      have "set (open_pages ?s) \<subseteq> set (open_pages (snd (checkUrl w ?s url (retryCount + 1))))"
        using "1.IH" a Inl True by (simp add: cleanupPage_id)
      then show ?thesis using step o by (auto simp: delay_def)
    next
      case False
      then have "checkUrl w s url retryCount = (Inr (errorReport url e retryCount), s')"
        using a Inl checkUrl_exhausted_step by blast
      then show ?thesis using o by simp
    qed
  qed
qed

lemma doubling_upto_two:
  "n \<le> 2 \<Longrightarrow> map (\<lambda>i. 3000 * (i + 1)) [0..<n] = map (\<lambda>i. 3000 * 2 ^ i) [0..<n::nat]"
proof -
  assume "n \<le> 2"
  then consider "n = 0" | "n = 1" | "n = 2" by linarith
  then show ?thesis
    by cases (simp_all add: numeral_2_eq_2)
qed

lemma failed_attempt_eq:
  "isl (fst x) \<Longrightarrow> projl (fst x) = e \<Longrightarrow> fst (snd x) = p \<Longrightarrow> snd (snd x) = s \<Longrightarrow>
   x = (Inl e, p, s)"
  by (cases x; cases "fst x") auto

lemma successful_attempt_eq:
  "\<not> isl (fst x) \<Longrightarrow> fst (snd x) = p \<Longrightarrow> snd (snd x) = s \<Longrightarrow>
   x = (Inr (projr (fst x)), p, s)"
  by (cases x; cases "fst x") auto

lemma always_fail_0:
  "attempt world_always_fail initial_state ''https://example.com/'' 0 =
     (Inl ''Navigation timeout, attempt 1'', Some 0,
      \<lparr> browser = True, open_pages = [0], next_page = 1, delays = [], tls_connections = [] \<rparr>)"
  by (rule failed_attempt_eq; code_simp)

lemma always_fail_1:
  "attempt world_always_fail
     (delay 3000 \<lparr> browser = True, open_pages = [0], next_page = 1, delays = [],
                   tls_connections = [] \<rparr>) ''https://example.com/'' 1 =
     (Inl ''Navigation timeout, attempt 2'', Some 1,
      \<lparr> browser = True, open_pages = [0, 1], next_page = 2, delays = [3000],
        tls_connections = [] \<rparr>)"
  by (rule failed_attempt_eq; code_simp)

lemma always_fail_2:
  "attempt world_always_fail
     (delay 6000 \<lparr> browser = True, open_pages = [0, 1], next_page = 2, delays = [3000],
                   tls_connections = [] \<rparr>) ''https://example.com/'' 2 =
     (Inl ''Navigation timeout, attempt 3'', Some 2,
      \<lparr> browser = True, open_pages = [0, 1, 2], next_page = 3, delays = [3000, 6000],
        tls_connections = [] \<rparr>)"
  by (rule failed_attempt_eq; code_simp)

text \<open>
  Claim C1. The promise returned by \<open>checkUrl\<close> never rejects: it resolves to a report
  for every world, state, URL and retry count. When the attempts with retry counts 0, 1
  and 2 all fail, it resolves to the report with score 0, an empty \<^verbatim>\<open>checks\<close> object and
  the single recommendation of priority \<^verbatim>\<open>ERROR\<close> whose message ends with the message of
  the last failure; the same holds for any call whose retry count has reached the ceiling.
\<close>

theorem checkUrl_always_resolves:
  "(\<forall>w s url k. \<exists>r. fst (checkUrl w s url k) = Inr r) \<and>
   (\<forall>w s0 url e0 p0 s1 e1 p1 s2 e2 p2 s3.
      attempt w s0 url 0 = (Inl e0, p0, s1) \<and>
      attempt w (delay 3000 s1) url 1 = (Inl e1, p1, s2) \<and>
      attempt w (delay 6000 s2) url 2 = (Inl e2, p2, s3) \<longrightarrow>
      (\<exists>r. checkUrl w s0 url 0 = (Inr r, s3) \<and> report_score r = 0 \<and>
           report_checks r = Map.empty \<and>
           recommendations r =
             [\<lparr> priority = ''ERROR'', message = ''Chyba pri kontrole: '' @ e2 \<rparr>])) \<and>
   (\<forall>w s url k e p s'.
      maxRetries \<le> k \<and> attempt w s url k = (Inl e, p, s') \<longrightarrow>
      (\<exists>r. checkUrl w s url k = (Inr r, s') \<and> report_score r = 0 \<and>
           report_checks r = Map.empty \<and>
           recommendations r =
             [\<lparr> priority = ''ERROR'', message = ''Chyba pri kontrole: '' @ e \<rparr>]))"
proof (intro conjI allI impI)
  fix w s url k
  show "\<exists>r. fst (checkUrl w s url k) = Inr r"
    using checkUrl_result [of w s url k] by blast
next
  fix w s0 url e0 p0 s1 e1 p1 s2 e2 p2 s3
  assume "attempt w s0 url 0 = (Inl e0, p0, s1) \<and>
      attempt w (delay 3000 s1) url 1 = (Inl e1, p1, s2) \<and>
      attempt w (delay 6000 s2) url 2 = (Inl e2, p2, s3)"
  then have "checkUrl w s0 url 0 = (Inr (errorReport url e2 2), s3)"
    using checkUrl_three_failures by blast
  then show "\<exists>r. checkUrl w s0 url 0 = (Inr r, s3) \<and> report_score r = 0 \<and>
           report_checks r = Map.empty \<and>
           recommendations r =
             [\<lparr> priority = ''ERROR'', message = ''Chyba pri kontrole: '' @ e2 \<rparr>]"
    by (simp add: errorReport_fields)
next
  fix w s url k e p s'
  assume "maxRetries \<le> k \<and> attempt w s url k = (Inl e, p, s')"
  then have "checkUrl w s url k = (Inr (errorReport url e k), s')"
    using checkUrl_exhausted_step [of w s url k e p s'] by simp
  then show "\<exists>r. checkUrl w s url k = (Inr r, s') \<and> report_score r = 0 \<and>
           report_checks r = Map.empty \<and>
           recommendations r =
             [\<lparr> priority = ''ERROR'', message = ''Chyba pri kontrole: '' @ e \<rparr>]"
    by (simp add: errorReport_fields)
qed

theorem checkUrl_always_resolves_witness:
  "\<exists>r. checkUrl world_always_fail initial_state ''https://example.com/'' 0 =
         (Inr r, \<lparr> browser = True, open_pages = [0, 1, 2], next_page = 3,
                   delays = [3000, 6000], tls_connections = [] \<rparr>) \<and>
       report_score r = 0 \<and> report_checks r = Map.empty \<and>
       recommendations r =
         [\<lparr> priority = ''ERROR'',
            message = ''Chyba pri kontrole: Navigation timeout, attempt 3'' \<rparr>]"
  using checkUrl_always_resolves [THEN conjunct2, THEN conjunct1, rule_format,
      OF conjI [OF always_fail_0 conjI [OF always_fail_1 always_fail_2]]]
  by simp

lemma attempt_succeeds:
  assumes "parse_url w url = Inr urlObj"
    and "protocol urlObj = ''http:'' \<or> protocol urlObj = ''https:''"
    and "browser s \<or> launch (attempts w k) = None"
    and "newPage (attempts w k) = None"
    and "loadPage (attempts w k) = Inr ()"
    and "page_content (attempts w k) = Inr query"
    and "page_cookies_first (attempts w k) = Inr cs"
  shows "attempt w s url k =
     (let s1 = (if browser s then s else s\<lparr> browser := True \<rparr>);
          s2 = s1\<lparr> open_pages := open_pages s1 @ [next_page s1], next_page := next_page s1 + 1 \<rparr>
      in (Inr (fst (analyse w (attempts w k) s2 url k query cs)), Some (next_page s),
          snd (checkSSL w (attempts w k) s2 url)))"
  using assms
  by (auto simp: attempt_def Let_def initBrowser_def pageCheck_ok analyse_state)

lemma fail_twice_0:
  "attempt world_fail_twice initial_state ''https://example.com/'' 0 =
     (Inl ''net::ERR_CONNECTION_RESET'', Some 0,
      \<lparr> browser = True, open_pages = [0], next_page = 1, delays = [], tls_connections = [] \<rparr>)"
  by (rule failed_attempt_eq; code_simp)

lemma fail_twice_1:
  "attempt world_fail_twice
     (delay 3000 \<lparr> browser = True, open_pages = [0], next_page = 1, delays = [],
                   tls_connections = [] \<rparr>) ''https://example.com/'' 1 =
     (Inl ''net::ERR_CONNECTION_RESET'', Some 1,
      \<lparr> browser = True, open_pages = [0, 1], next_page = 2, delays = [3000],
        tls_connections = [] \<rparr>)"
  by (rule failed_attempt_eq; code_simp)

lemma fail_twice_2:
  "\<exists>r. attempt world_fail_twice
     (delay 6000 \<lparr> browser = True, open_pages = [0, 1], next_page = 2, delays = [3000],
                   tls_connections = [] \<rparr>) ''https://example.com/'' 2 =
     (Inr r, Some 2,
      \<lparr> browser = True, open_pages = [0, 1, 2], next_page = 3, delays = [3000, 6000],
        tls_connections = [''example.com''] \<rparr>)"
  by (subst attempt_succeeds [where urlObj = "\<lparr> protocol = ''https:'', hostname = ''example.com'' \<rparr>"
        and query = example_page and cs = "[example_cookie (JStr ''session_id'')]"])
     (simp_all add: world_fail_twice_def example_parse_def good_attempt_def loadPage_def
        delay_def checkSSL_def Let_def)

text \<open>
  Claim C7. After a failed attempt \<open>checkUrl\<close> runs the whole audit again, at most
  \<open>maxRetries = 2\<close> times, that is three attempts in all. Before the retry with count
  \<open>i + 1\<close> it waits \<open>3000 * (i + 1)\<close> milliseconds, which for the two waits that can occur
  is \<open>3000 * 2 ^ i\<close>: 3000 and then 6000. A run whose first two attempts fail and whose
  third succeeds returns the report of the third attempt, with \<^verbatim>\<open>debug.retryCount = 2\<close>; a
  run whose three attempts fail returns the error report with score 0.
\<close>

theorem checkUrl_retries:
  "maxRetries = 2 \<and>
   (\<forall>w s url.
      \<exists>r. fst (checkUrl w s url 0) = Inr r \<and> debug_retryCount (debug r) \<le> 2 \<and>
          delays (snd (checkUrl w s url 0)) =
            delays s @ map (\<lambda>i. 3000 * 2 ^ i) [0..<debug_retryCount (debug r)]) \<and>
   (\<forall>w s0 url e0 p0 s1 e1 p1 s2 r p2 s3.
      attempt w s0 url 0 = (Inl e0, p0, s1) \<and>
      attempt w (delay 3000 s1) url 1 = (Inl e1, p1, s2) \<and>
      attempt w (delay 6000 s2) url 2 = (Inr r, p2, s3) \<longrightarrow>
      checkUrl w s0 url 0 = (Inr r, s3) \<and> debug_retryCount (debug r) = 2 \<and>
      \<not> failed (debug r) \<and> delays s3 = delays s0 @ [3000, 6000]) \<and>
   (\<forall>w s0 url e0 p0 s1 e1 p1 s2 e2 p2 s3.
      attempt w s0 url 0 = (Inl e0, p0, s1) \<and>
      attempt w (delay 3000 s1) url 1 = (Inl e1, p1, s2) \<and>
      attempt w (delay 6000 s2) url 2 = (Inl e2, p2, s3) \<longrightarrow>
      (\<exists>r. checkUrl w s0 url 0 = (Inr r, s3) \<and> failed (debug r) \<and> report_score r = 0 \<and>
           debug_retryCount (debug r) = 2 \<and> report_error r = Some e2 \<and>
           delays s3 = delays s0 @ [3000, 6000]))"
proof (intro conjI)
  show "maxRetries = 2" by (simp add: maxRetries_def)
next
  show "\<forall>w s url.
      \<exists>r. fst (checkUrl w s url 0) = Inr r \<and> debug_retryCount (debug r) \<le> 2 \<and>
          delays (snd (checkUrl w s url 0)) =
            delays s @ map (\<lambda>i. 3000 * 2 ^ i) [0..<debug_retryCount (debug r)]"
  proof (intro allI)
    fix w s url
    obtain r where r: "fst (checkUrl w s url 0) = Inr r"
      "debug_retryCount (debug r) \<le> max 0 maxRetries"
      "delays (snd (checkUrl w s url 0)) =
         delays s @ map (\<lambda>i. 3000 * (i + 1)) [0..<debug_retryCount (debug r)]"
      using checkUrl_delays [of w s url 0] by blast
    have le: "debug_retryCount (debug r) \<le> 2" using r(2) by (simp add: maxRetries_def)
    show "\<exists>r. fst (checkUrl w s url 0) = Inr r \<and> debug_retryCount (debug r) \<le> 2 \<and>
            delays (snd (checkUrl w s url 0)) =
              delays s @ map (\<lambda>i. 3000 * 2 ^ i) [0..<debug_retryCount (debug r)]"
      using r(1) r(3) le doubling_upto_two [OF le] by auto
  qed
next
  show "\<forall>w s0 url e0 p0 s1 e1 p1 s2 r p2 s3.
      attempt w s0 url 0 = (Inl e0, p0, s1) \<and>
      attempt w (delay 3000 s1) url 1 = (Inl e1, p1, s2) \<and>
      attempt w (delay 6000 s2) url 2 = (Inr r, p2, s3) \<longrightarrow>
      checkUrl w s0 url 0 = (Inr r, s3) \<and> debug_retryCount (debug r) = 2 \<and>
      \<not> failed (debug r) \<and> delays s3 = delays s0 @ [3000, 6000]"
  proof (intro allI impI)
    fix w s0 url e0 p0 s1 e1 p1 s2 r p2 s3
    assume a: "attempt w s0 url 0 = (Inl e0, p0, s1) \<and>
        attempt w (delay 3000 s1) url 1 = (Inl e1, p1, s2) \<and>
        attempt w (delay 6000 s2) url 2 = (Inr r, p2, s3)"
    have "delays s1 = delays s0" "delays s2 = delays (delay 3000 s1)"
      "delays s3 = delays (delay 6000 s2)"
      using a attempt_delays_eq by blast+
    then have d: "delays s3 = delays s0 @ [3000, 6000]" by (simp add: delay_def)
    show "checkUrl w s0 url 0 = (Inr r, s3) \<and> debug_retryCount (debug r) = 2 \<and>
        \<not> failed (debug r) \<and> delays s3 = delays s0 @ [3000, 6000]"
      using a d checkUrl_third_succeeds [of w s0 url e0 p0 s1 e1 p1 s2 r p2 s3]
        attempt_success_report [of w "delay 6000 s2" url 2 r p2 s3]
      by simp
  qed
next
  show "\<forall>w s0 url e0 p0 s1 e1 p1 s2 e2 p2 s3.
      attempt w s0 url 0 = (Inl e0, p0, s1) \<and>
      attempt w (delay 3000 s1) url 1 = (Inl e1, p1, s2) \<and>
      attempt w (delay 6000 s2) url 2 = (Inl e2, p2, s3) \<longrightarrow>
      (\<exists>r. checkUrl w s0 url 0 = (Inr r, s3) \<and> failed (debug r) \<and> report_score r = 0 \<and>
           debug_retryCount (debug r) = 2 \<and> report_error r = Some e2 \<and>
           delays s3 = delays s0 @ [3000, 6000])"
  proof (intro allI impI)
    fix w s0 url e0 p0 s1 e1 p1 s2 e2 p2 s3
    assume a: "attempt w s0 url 0 = (Inl e0, p0, s1) \<and>
        attempt w (delay 3000 s1) url 1 = (Inl e1, p1, s2) \<and>
        attempt w (delay 6000 s2) url 2 = (Inl e2, p2, s3)"
    have "delays s1 = delays s0" "delays s2 = delays (delay 3000 s1)"
      "delays s3 = delays (delay 6000 s2)"
      using a attempt_delays_eq by blast+
    then have d: "delays s3 = delays s0 @ [3000, 6000]" by (simp add: delay_def)
    have "checkUrl w s0 url 0 = (Inr (errorReport url e2 2), s3)"
      using a checkUrl_three_failures by blast
    then show "\<exists>r. checkUrl w s0 url 0 = (Inr r, s3) \<and> failed (debug r) \<and> report_score r = 0 \<and>
             debug_retryCount (debug r) = 2 \<and> report_error r = Some e2 \<and>
             delays s3 = delays s0 @ [3000, 6000]"
      using d by (simp add: errorReport_fields)
  qed
qed

theorem checkUrl_retries_witness:
  "\<exists>r. checkUrl world_fail_twice initial_state ''https://example.com/'' 0 =
         (Inr r, \<lparr> browser = True, open_pages = [0, 1, 2], next_page = 3,
                   delays = [3000, 6000], tls_connections = [''example.com''] \<rparr>) \<and>
       debug_retryCount (debug r) = 2 \<and> \<not> failed (debug r)"
proof -
  obtain r where r: "attempt world_fail_twice
     (delay 6000 \<lparr> browser = True, open_pages = [0, 1], next_page = 2, delays = [3000],
                   tls_connections = [] \<rparr>) ''https://example.com/'' 2 =
     (Inr r, Some 2,
      \<lparr> browser = True, open_pages = [0, 1, 2], next_page = 3, delays = [3000, 6000],
        tls_connections = [''example.com''] \<rparr>)"
    using fail_twice_2 by blast
  show ?thesis
    using checkUrl_retries [THEN conjunct2, THEN conjunct2, THEN conjunct1, rule_format,
        OF conjI [OF fail_twice_0 conjI [OF fail_twice_1 r]]]
    by blast
qed

section \<open>Properties of the SSL inspection\<close>

text \<open>
  Claim C8. \<open>checkSSL\<close> never rejects. For a URL whose protocol is not \<^verbatim>\<open>https:\<close> it
  returns \<^verbatim>\<open>valid = false\<close> with the detail text about the protocol and leaves the state
  as it was, so no TLS connection is opened; a URL that does not parse, and an error of the
  TLS connection, give \<^verbatim>\<open>valid = false\<close> with a detail text that carries the message.
  Should the promise reject all the same, \<open>checkUrl\<close> stores \<^verbatim>\<open>valid = false\<close> with the
  message.
\<close>

theorem checkSSL_never_rejects:
  "(\<forall>w a s url. \<exists>r. fst (checkSSL w a s url) = Inr r \<and> (valid r = Some False \<longrightarrow> details r \<noteq> None)) \<and>
   (\<forall>w a s url p.
      parse_url w url = Inr p \<and> protocol p \<noteq> ''https:'' \<longrightarrow>
      (\<exists>r. checkSSL w a s url = (Inr r, s) \<and> valid r = Some False \<and>
           details r = Some ''Stranka nepouziva HTTPS protokol.'')) \<and>
   (\<forall>w a s url e.
      parse_url w url = Inl e \<longrightarrow>
      (\<exists>r. checkSSL w a s url = (Inr r, s) \<and> valid r = Some False \<and>
           details r = Some (''Vynimka pri kontrole SSL: '' @ e))) \<and>
   (\<forall>w a s url p e.
      parse_url w url = Inr p \<and> protocol p = ''https:'' \<and> tls_connect a = TlsError e \<longrightarrow>
      (\<exists>r. fst (checkSSL w a s url) = Inr r \<and> valid r = Some False \<and>
           details r = Some (''Chyba pri kontrole SSL: '' @ e))) \<and>
   (\<forall>b p cp ci ck pc e.
      \<exists>r. assembleChecks b p cp ci (Inl e) ck pc ''ssl'' = Some r \<and> valid r = Some False \<and>
          details r = Some e)"
proof (intro conjI)
  show "\<forall>w a s url. \<exists>r. fst (checkSSL w a s url) = Inr r \<and> (valid r = Some False \<longrightarrow> details r \<noteq> None)"
    by (simp add: checkSSL_def Let_def no_properties_def
        split: sum.splits tls_outcome.splits certificate.splits)
next
  show "\<forall>w a s url p.
      parse_url w url = Inr p \<and> protocol p \<noteq> ''https:'' \<longrightarrow>
      (\<exists>r. checkSSL w a s url = (Inr r, s) \<and> valid r = Some False \<and>
           details r = Some ''Stranka nepouziva HTTPS protokol.'')"
    by (simp add: checkSSL_def Let_def no_properties_def)
next
  show "\<forall>w a s url e.
      parse_url w url = Inl e \<longrightarrow>
      (\<exists>r. checkSSL w a s url = (Inr r, s) \<and> valid r = Some False \<and>
           details r = Some (''Vynimka pri kontrole SSL: '' @ e))"
    by (simp add: checkSSL_def Let_def no_properties_def)
next
  show "\<forall>w a s url p e.
      parse_url w url = Inr p \<and> protocol p = ''https:'' \<and> tls_connect a = TlsError e \<longrightarrow>
      (\<exists>r. fst (checkSSL w a s url) = Inr r \<and> valid r = Some False \<and>
           details r = Some (''Chyba pri kontrole SSL: '' @ e))"
    by (simp add: checkSSL_def Let_def no_properties_def)
next
  show "\<forall>b p cp ci ck pc e.
      \<exists>r. assembleChecks b p cp ci (Inl e) ck pc ''ssl'' = Some r \<and> valid r = Some False \<and>
          details r = Some e"
    by (simp add: assembleChecks_def no_properties_def)
qed

theorem checkSSL_never_rejects_witness:
  "\<exists>r. checkSSL world_ok good_attempt initial_state ''http://example.com/'' =
         (Inr r, initial_state) \<and>
       valid r = Some False \<and> details r = Some ''Stranka nepouziva HTTPS protokol.'' \<and>
       tls_connections initial_state = []"
proof -
  have "parse_url world_ok ''http://example.com/'' =
          Inr \<lparr> protocol = ''http:'', hostname = ''example.com'' \<rparr> \<and>
        protocol \<lparr> protocol = ''http:'', hostname = ''example.com'' \<rparr> \<noteq> ''https:''"
    by (simp add: world_ok_def example_parse_def)
  then show ?thesis
    using checkSSL_never_rejects [THEN conjunct2, THEN conjunct1, rule_format,
        of world_ok "''http://example.com/''" "\<lparr> protocol = ''http:'', hostname = ''example.com'' \<rparr>"
           good_attempt initial_state]
    by (simp add: initial_state_def)
qed

section \<open>Pages and keys of the report\<close>

lemma world_ok_attempt:
  "attempt world_ok initial_state ''https://example.com/'' 0 =
     (Inr (fst (analyse world_ok good_attempt
                  \<lparr> browser = True, open_pages = [0], next_page = 1, delays = [],
                    tls_connections = [] \<rparr> ''https://example.com/'' 0 example_page
                  [example_cookie (JStr ''session_id'')])),
      Some 0,
      \<lparr> browser = True, open_pages = [0], next_page = 1, delays = [],
        tls_connections = [''example.com''] \<rparr>)"
  by (subst attempt_succeeds [where urlObj = "\<lparr> protocol = ''https:'', hostname = ''example.com'' \<rparr>"
        and query = example_page and cs = "[example_cookie (JStr ''session_id'')]"])
     (simp_all add: world_ok_def example_parse_def good_attempt_def loadPage_def
        initial_state_def checkSSL_def Let_def)

lemma world_ok_checkUrl:
  "checkUrl world_ok initial_state ''https://example.com/'' 0 =
     (Inr (fst (analyse world_ok good_attempt
                  \<lparr> browser = True, open_pages = [0], next_page = 1, delays = [],
                    tls_connections = [] \<rparr> ''https://example.com/'' 0 example_page
                  [example_cookie (JStr ''session_id'')])),
      \<lparr> browser = True, open_pages = [0], next_page = 1, delays = [],
        tls_connections = [''example.com''] \<rparr>)"
  using world_ok_attempt by (rule checkUrl_success_step)

lemma world_always_fail_checkUrl:
  "checkUrl world_always_fail initial_state ''https://example.com/'' 0 =
     (Inr (errorReport ''https://example.com/'' ''Navigation timeout, attempt 3'' 2),
      \<lparr> browser = True, open_pages = [0, 1, 2], next_page = 3, delays = [3000, 6000],
        tls_connections = [] \<rparr>)"
  using always_fail_0 always_fail_1 always_fail_2 by (rule checkUrl_three_failures)

text \<open>
  Claim C9 says that the page opened for an audit is closed when \<open>checkUrl\<close> completes.
  The source never calls \<^verbatim>\<open>page.close()\<close>: the block before \<^verbatim>\<open>return results\<close> and the
  block under the comment \<^verbatim>\<open>Clean up page if it exists\<close> only ask \<^verbatim>\<open>page.isClosed()\<close>.
  After a successful audit the page is still open, and after three failed attempts three
  pages are.
\<close>

theorem checkUrl_page_left_open:
  "\<not> isl (fst (checkUrl world_ok initial_state ''https://example.com/'' 0)) \<and>
   open_pages (snd (checkUrl world_ok initial_state ''https://example.com/'' 0)) = [0] \<and>
   open_pages (snd (checkUrl world_always_fail initial_state ''https://example.com/'' 0)) =
     [0, 1, 2]"
  by (simp add: world_ok_checkUrl world_always_fail_checkUrl)

lemma ssl_not_scored: "''ssl'' \<notin> six_dimensions"
  by (simp add: six_dimensions_def)

text \<open>
  Claim C2, as stated, does not hold: the \<^verbatim>\<open>checks\<close> object of a successful report has
  the key \<^verbatim>\<open>ssl\<close> besides the six scored dimensions, and that of the error report is
  empty.
\<close>

theorem checks_six_keys_counterexample:
  "\<not> isl (fst (checkUrl world_ok initial_state ''https://example.com/'' 0)) \<and>
   dom (report_checks (projr (fst (checkUrl world_ok initial_state ''https://example.com/'' 0))))
     \<noteq> six_dimensions \<and>
   \<not> isl (fst (checkUrl world_always_fail initial_state ''https://example.com/'' 0)) \<and>
   dom (report_checks (projr (fst
     (checkUrl world_always_fail initial_state ''https://example.com/'' 0)))) \<noteq> six_dimensions"
proof -
  have "insert ''ssl'' six_dimensions \<noteq> six_dimensions"
    using ssl_not_scored by blast
  moreover have "{} \<noteq> six_dimensions"
    by (simp add: six_dimensions_def)
  ultimately show ?thesis
    by (simp add: world_ok_checkUrl world_always_fail_checkUrl analyse_report
        dom_assembleChecks errorReport_fields)
qed

text \<open>
  Claim C2, amended. The \<^verbatim>\<open>checks\<close> object of a report assembled at the end of a
  \<^verbatim>\<open>try\<close> block has exactly seven keys, the six scored dimensions and \<^verbatim>\<open>ssl\<close>, whatever
  the detectors settle to; the error report, which has \<^verbatim>\<open>debug.failed\<close> set, has an empty
  \<^verbatim>\<open>checks\<close> object.
\<close>

theorem checks_seven_keys:
  "(\<forall>b p cp ci ssl ck pc.
      dom (assembleChecks b p cp ci ssl ck pc) = insert ''ssl'' six_dimensions) \<and>
   ''ssl'' \<notin> six_dimensions \<and>
   (\<forall>w s url k.
      \<exists>r. fst (checkUrl w s url k) = Inr r \<and>
          dom (report_checks r) =
            (if failed (debug r) then {} else insert ''ssl'' six_dimensions))"
  using dom_assembleChecks ssl_not_scored checkUrl_keys by blast

theorem checks_seven_keys_witness:
  "\<exists>r. fst (checkUrl world_ok initial_state ''https://example.com/'' 0) = Inr r \<and>
       dom (report_checks r) = insert ''ssl'' six_dimensions \<and> ''ssl'' \<notin> six_dimensions \<and>
       \<not> failed (debug r)"
proof -
  obtain r where r: "fst (checkUrl world_ok initial_state ''https://example.com/'' 0) = Inr r"
    and d: "dom (report_checks r) =
            (if failed (debug r) then {} else insert ''ssl'' six_dimensions)"
    using checks_seven_keys by blast
  have "\<not> failed (debug r)"
    using r analyse_report(1) by (auto simp: world_ok_checkUrl)
  with r d show ?thesis using checks_seven_keys by simp
qed

section \<open>Properties of the score\<close>





















text \<open>
  At a tie of the exact sum the binary64 sum can lie just below it: for the scores 44, 91,
  57, 18, 54 and 27 the exact weighted sum is 49.5 and \<open>calculateScore\<close> returns 49.
\<close>

lemma tie_checks_score: "calculateScore tie_checks = 49 \<and> spec_weighted_sum tie_checks = 99 / 2"
proof
  show "calculateScore tie_checks = 49" by code_simp
  show "spec_weighted_sum tie_checks = 99 / 2"
    by (simp add: spec_weighted_sum_def numericScore_def tie_checks_def scored_def)
qed



end
